theory Spec2Isabelle
  imports Main "HOL-Library.AList"
begin

section \<open>Python values used by \<open>app.py\<close>\<close>

text \<open>
  A Python \<open>str\<close> is modelled as a \<open>string\<close>; a \<open>char\<close> stands for a code point
  below 256.  Python integers are unbounded, hence \<open>int\<close>.  Console output
  (\<open>print\<close>) is not part of the model.
\<close>

subsection \<open>\<open>str(int)\<close>, as used by the f-strings\<close>

definition digit_char :: "nat \<Rightarrow> char" where
  "digit_char d = char_of (48 + d)"

fun str_nat :: "nat \<Rightarrow> string" where
  "str_nat n = (if n < 10 then [digit_char n] else str_nat (n div 10) @ [digit_char (n mod 10)])"

declare str_nat.simps [simp del]

definition str_int :: "int \<Rightarrow> string" where
  "str_int i = (if i < 0 then CHR ''-'' # str_nat (nat (- i)) else str_nat (nat i))"

subsection \<open>String operations\<close>

text \<open>\<open>str.isspace\<close> on the code points below 256.\<close>

definition py_isspace :: "char \<Rightarrow> bool" where
  "py_isspace c = ((of_char c :: nat) \<in> {9, 10, 11, 12, 13, 28, 29, 30, 31, 32, 133, 160})"

definition py_rstrip :: "string \<Rightarrow> string" where
  "py_rstrip s = rev (dropWhile py_isspace (rev s))"

definition py_strip :: "string \<Rightarrow> string" where
  "py_strip s = dropWhile py_isspace (py_rstrip s)"

text \<open>\<open>sub in s\<close>.\<close>

fun py_contains :: "string \<Rightarrow> string \<Rightarrow> bool" where
  "py_contains sub [] = (sub = [])"
| "py_contains sub (c # cs) = (take (length sub) (c # cs) = sub \<or> py_contains sub cs)"

text \<open>
  The first occurrence of a non-empty separator: the text before it and the text
  after it.
\<close>

fun find_sep :: "string \<Rightarrow> string \<Rightarrow> (string \<times> string) option" where
  "find_sep sep [] = None"
| "find_sep sep (c # cs) =
     (if take (length sep) (c # cs) = sep then Some ([], drop (length sep) (c # cs))
      else (case find_sep sep cs of None \<Rightarrow> None | Some (a, b) \<Rightarrow> Some (c # a, b)))"

text \<open>\<open>s.split(sep, maxsplit=1)\<close> for a non-empty \<open>sep\<close>.\<close>

definition py_split1 :: "string \<Rightarrow> string \<Rightarrow> string list" where
  "py_split1 sep s = (case find_sep sep s of None \<Rightarrow> [s] | Some (a, b) \<Rightarrow> [a, b])"

subsection \<open>Exceptions and outcomes\<close>

datatype exn =
    JSONDecodeError
  | AttributeError
  | IndexError
  | RuntimeError string
  | ValueError string
  | OSError string
  | FileExistsError
  | FileNotFoundError
  | NotADirectoryError
  | IsADirectoryError
  | PermissionError
  | TimeoutExpired
  | SystemExit int

text \<open>What \<open>except Exception\<close> catches: everything above but \<open>SystemExit\<close>.\<close>

fun is_Exception :: "exn \<Rightarrow> bool" where
  "is_Exception (SystemExit _) = False"
| "is_Exception _ = True"

text \<open>
  A call returns, raises, or blocks for ever (a \<open>wait()\<close> on a child that never
  exits).
\<close>

datatype 'a outcome = Returns 'a | Raises exn | Blocks

text \<open>\<open>xs[i]\<close> for \<open>i \<ge> 0\<close>.\<close>

definition py_index :: "'a list \<Rightarrow> nat \<Rightarrow> exn + 'a" where
  "py_index xs i = (if i < length xs then Inr (xs ! i) else Inl IndexError)"

subsection \<open>Decoded JSON\<close>

text \<open>
  What \<open>json.loads\<close> returns: \<open>None\<close>, a \<open>bool\<close>, an \<open>int\<close>, a \<open>float\<close> (kept as
  the literal it was read from), a \<open>str\<close>, a \<open>list\<close>, or a \<open>dict\<close> (its items in
  insertion order, keys distinct).
\<close>

datatype json =
    JNull
  | JBool bool
  | JInt int
  | JFloat string
  | JStr string
  | JList "json list"
  | JDict "(string \<times> json) list"

text \<open>
  \<open>parsed.get(key)\<close>: only a \<open>dict\<close> has the method; a missing key gives \<open>None\<close>.
\<close>

fun dict_get :: "json \<Rightarrow> string \<Rightarrow> exn + json" where
  "dict_get (JDict kvs) k = Inr (case map_of kvs k of None \<Rightarrow> JNull | Some v \<Rightarrow> v)"
| "dict_get _ k = Inl AttributeError"

subsection \<open>Command-line options\<close>

text \<open>
  The \<open>Namespace\<close> produced by \<open>build_parser\<close>: the four declared arguments, the
  hidden \<open>--json\<close> switch, and the attributes that only \<open>set_defaults\<close> provides.
\<close>

record options =
  cid :: int
  total_clients :: int
  superlink_host :: string
  data_seed :: int
  json :: bool
  superlink_port :: int
  clientapp_host :: string
  clientapp_port :: int
  metrics_file :: string
  state_dir :: string
  keep_state :: bool
  transport :: string

definition DEFAULT_SUPERLINK_PORT :: int where "DEFAULT_SUPERLINK_PORT = 9092"
definition DEFAULT_CLIENTAPP_PORT :: int where "DEFAULT_CLIENTAPP_PORT = 9094"
definition DEFAULT_TOTAL_CLIENTS :: int where "DEFAULT_TOTAL_CLIENTS = 3"
definition DEFAULT_STATE_DIR :: string where "DEFAULT_STATE_DIR = ''/tmp/fedmed-flwr-node''"
definition DEFAULT_METRICS_FILE :: string where "DEFAULT_METRICS_FILE = ''client_metrics.json''"

definition default_options :: options where
  "default_options =
     \<lparr> cid = 0, total_clients = DEFAULT_TOTAL_CLIENTS,
       superlink_host = ''fedmed-pl-superlink'', data_seed = 13, json = False,
       superlink_port = DEFAULT_SUPERLINK_PORT, clientapp_host = ''0.0.0.0'',
       clientapp_port = DEFAULT_CLIENTAPP_PORT, metrics_file = DEFAULT_METRICS_FILE,
       state_dir = DEFAULT_STATE_DIR, keep_state = False, transport = ''grpc-rere'' \<rparr>"

subsection \<open>\<open>NodeConfig\<close> and \<open>ConnectionTargets\<close>\<close>

record NodeConfig =
  nc_cid :: int
  nc_total_clients :: int
  nc_data_seed :: int

definition as_flag :: "NodeConfig \<Rightarrow> string" where
  "as_flag c =
     ''partition-id='' @ str_int (nc_cid c) @ '' '' @
     ''num-partitions='' @ str_int (nc_total_clients c) @ '' '' @
     ''data-seed='' @ str_int (nc_data_seed c)"

record ConnectionTargets =
  superlink :: string
  clientapp :: string

definition build_node_config :: "options \<Rightarrow> NodeConfig" where
  "build_node_config opts =
     \<lparr> nc_cid = cid opts, nc_total_clients = total_clients opts, nc_data_seed = data_seed opts \<rparr>"

definition build_targets :: "options \<Rightarrow> ConnectionTargets" where
  "build_targets opts =
     \<lparr> superlink = superlink_host opts @ '':'' @ str_int (superlink_port opts),
       clientapp = clientapp_host opts @ '':'' @ str_int (clientapp_port opts) \<rparr>"

subsection \<open>The command line of the child\<close>

definition transport_flag :: "string \<Rightarrow> string list" where
  "transport_flag t =
     (if t = ''grpc-rere'' then [''--grpc-rere'']
      else if t = ''grpc-adapter'' then [''--grpc-adapter'']
      else [''--rest''])"

text \<open>The local variable \<open>cmd\<close> of \<open>_run_supernode\<close>.\<close>

definition supernode_cmd :: "options \<Rightarrow> string list" where
  "supernode_cmd opts =
     (let targets = build_targets opts; node_config = build_node_config opts
      in [''flower-supernode'', ''--insecure''] @ transport_flag (transport opts) @
         [''--superlink='' @ superlink targets,
          ''--clientappio-api-address='' @ clientapp targets,
          ''--node-config'',
          as_flag node_config])"

text \<open>The closed set of transport flags of the child's command line.\<close>

definition transport_flags :: "string list" where
  "transport_flags = [''--grpc-rere'', ''--grpc-adapter'', ''--rest'']"

section \<open>Summary Extractor and Stream Relay\<close>

definition SUMMARY_TOKEN :: string where
  "SUMMARY_TOKEN = ''[fedmed-supernode-app] SUMMARY ''"

text \<open>
  The closure \<open>_capture\<close> of \<open>_run_supernode\<close>.  Its nonlocal variable \<open>metrics\<close> is
  passed in and returned; \<open>json.loads\<close> is the parameter \<open>loads\<close>.  Only
  \<open>JSONDecodeError\<close> is caught; when the closure raises, \<open>metrics\<close> keeps the value
  it had.
\<close>

definition capture :: "(string \<Rightarrow> exn + json) \<Rightarrow> string \<Rightarrow> json option \<Rightarrow> exn + json option" where
  "capture loads line metrics =
     (if py_contains SUMMARY_TOKEN line then
        (case py_index (py_split1 SUMMARY_TOKEN line) 1 of
           Inl e \<Rightarrow> Inl e
         | Inr rest \<Rightarrow>
             (let payload = py_strip rest in
              case loads payload of
                Inl e \<Rightarrow> (if e = JSONDecodeError then Inr metrics else Inl e)
              | Inr parsed \<Rightarrow>
                  (case dict_get parsed ''kind'' of
                     Inl e \<Rightarrow> Inl e
                   | Inr k \<Rightarrow> if k = JStr ''train'' then Inr (Some parsed) else Inr metrics)))
      else Inr metrics)"

text \<open>
  The loop of \<open>_stream_lines\<close> over the successive results of \<open>readline\<close>; the empty
  string is the sentinel of \<open>iter\<close>.  The hook works on a state \<open>'s\<close>.  The result is
  the exception that ended the loop, if any, and the state reached.
\<close>

fun stream_loop :: "(string \<Rightarrow> 's \<Rightarrow> exn + 's) option \<Rightarrow> string list \<Rightarrow> 's \<Rightarrow> exn option \<times> 's" where
  "stream_loop hook [] s = (None, s)"
| "stream_loop hook (raw # raws) s =
     (if raw = [] then (None, s)
      else (let line = py_rstrip raw in
            case hook of
              None \<Rightarrow> stream_loop hook raws s
            | Some f \<Rightarrow> (case f line s of Inl e \<Rightarrow> (Some e, s) | Inr s' \<Rightarrow> stream_loop hook raws s')))"

definition stream_lines ::
  "string list option \<Rightarrow> (string \<Rightarrow> 's \<Rightarrow> exn + 's) option \<Rightarrow> 's \<Rightarrow> exn option \<times> 's" where
  "stream_lines stream hook s =
     (case stream of None \<Rightarrow> (None, s) | Some raws \<Rightarrow> stream_loop hook raws s)"

section \<open>A decoder for the payloads\<close>

text \<open>
  \<open>json.loads\<close> belongs to the Python library; the functions of this development
  take it as a parameter, and the theorems hold for every decoder.  The decoder below
  is used in the sample runs only.  It follows the library's scanner
  (\<open>json.decoder\<close>, \<open>json.scanner\<close>) and runs on fuel, two units for each
  character of the text.  It departs from the library in three places, which no text
  of the sample runs reaches: it refuses a \<open>\u\<close> escape of a code point above 255,
  which the library decodes; it has no limit on nesting, where the library raises
  \<open>RecursionError\<close>; and it has no limit on the digits of an integer, where the
  library raises \<open>ValueError\<close> beyond 4300 digits.
\<close>

definition json_ws :: "char \<Rightarrow> bool" where
  "json_ws c = ((of_char c :: nat) \<in> {32, 9, 10, 13})"

definition is_digit :: "char \<Rightarrow> bool" where
  "is_digit c = (48 \<le> (of_char c :: nat) \<and> (of_char c :: nat) \<le> 57)"

definition nat_of_digits :: "string \<Rightarrow> nat" where
  "nat_of_digits ds = foldl (\<lambda>n c. 10 * n + (of_char c - 48)) 0 ds"

definition hex_val :: "char \<Rightarrow> nat option" where
  "hex_val c =
     (let k = (of_char c :: nat) in
      if 48 \<le> k \<and> k \<le> 57 then Some (k - 48)
      else if 65 \<le> k \<and> k \<le> 70 then Some (k - 55)
      else if 97 \<le> k \<and> k \<le> 102 then Some (k - 87)
      else None)"

text \<open>The body of a string, after its opening quote: the text and what follows it.\<close>

fun scan_string :: "string \<Rightarrow> (string \<times> string) option" where
  "scan_string [] = None"
| "scan_string (c # cs) =
     (if c = CHR 0x22 then Some ([], cs)
      else if (of_char c :: nat) < 32 then None
      else if c = CHR 0x5C then
        (case cs of
           [] \<Rightarrow> None
         | e # es \<Rightarrow>
             (if e = CHR ''u'' then
                (case map hex_val (take 4 es) of
                   [Some a, Some b, Some c', Some d] \<Rightarrow>
                     (if a = 0 \<and> b = 0
                      then map_option (apfst ((#) (char_of (16 * c' + d)))) (scan_string (drop 4 es))
                      else None)
                 | _ \<Rightarrow> None)
              else
                (case map_of [(CHR 0x22, CHR 0x22), (CHR 0x5C, CHR 0x5C), (CHR ''/'', CHR ''/''),
                              (CHR ''b'', CHR 0x08), (CHR ''f'', CHR 0x0C), (CHR ''n'', CHR 0x0A),
                              (CHR ''r'', CHR 0x0D), (CHR ''t'', CHR 0x09)] e of
                   None \<Rightarrow> None
                 | Some x \<Rightarrow> map_option (apfst ((#) x)) (scan_string es))))
      else map_option (apfst ((#) c)) (scan_string cs))"

text \<open>
  The longest prefix matching
  \<^verbatim>\<open>(-?(?:0|[1-9][0-9]*))(\.[0-9]+)?([eE][-+]?[0-9]+)?\<close>: an \<open>int\<close> when it has neither
  fraction nor exponent, a \<open>float\<close> otherwise.
\<close>

definition scan_number :: "string \<Rightarrow> (json \<times> string) option" where
  "scan_number s =
     (let (sign, r0) = (if take 1 s = ''-'' then (''-'', drop 1 s) else ([], s));
          ip = (if take 1 r0 = ''0'' then ''0'' else takeWhile is_digit r0);
          r1 = drop (length ip) r0;
          fd = (if take 1 r1 = ''.'' then takeWhile is_digit (drop 1 r1) else []);
          frac = (if fd = [] then [] else CHR ''.'' # fd);
          r2 = drop (length frac) r1;
          es = (if take 1 r2 = ''e'' \<or> take 1 r2 = ''E''
                then (if take 1 (drop 1 r2) = ''+'' \<or> take 1 (drop 1 r2) = ''-''
                      then take 2 r2 else take 1 r2)
                else []);
          ed = (if es = [] then [] else takeWhile is_digit (drop (length es) r2));
          ex = (if ed = [] then [] else es @ ed);
          r3 = drop (length ex) r2
      in if ip = [] then None
         else if frac = [] \<and> ex = []
           then Some (JInt (if sign = [] then int (nat_of_digits ip) else - int (nat_of_digits ip)), r3)
           else Some (JFloat (sign @ ip @ frac @ ex), r3))"

text \<open>\<open>dict(pairs)\<close>: a repeated key keeps its first place and its last value.\<close>

definition dict_of :: "(string \<times> json) list \<Rightarrow> (string \<times> json) list" where
  "dict_of pairs = foldl (\<lambda>d (k, v). AList.update k v d) [] pairs"

fun parse_value :: "nat \<Rightarrow> string \<Rightarrow> (json \<times> string) option"
  and parse_items :: "nat \<Rightarrow> json list \<Rightarrow> string \<Rightarrow> (json \<times> string) option"
  and parse_members :: "nat \<Rightarrow> (string \<times> json) list \<Rightarrow> string \<Rightarrow> (json \<times> string) option" where
  "parse_value 0 s = None"
| "parse_value (Suc n) s =
     (case s of
        [] \<Rightarrow> None
      | c # cs \<Rightarrow>
          if c = CHR 0x22 then
            (case scan_string cs of None \<Rightarrow> None | Some (t, r) \<Rightarrow> Some (JStr t, r))
          else if c = CHR ''{'' then
            (case dropWhile json_ws cs of
               [] \<Rightarrow> None
             | d # ds \<Rightarrow>
                 if d = CHR ''}'' then Some (JDict [], ds)
                 else if d = CHR 0x22 then parse_members n [] (d # ds)
                 else None)
          else if c = CHR ''['' then
            (case dropWhile json_ws cs of
               [] \<Rightarrow> None
             | d # ds \<Rightarrow> if d = CHR '']'' then Some (JList [], ds) else parse_items n [] (d # ds))
          else if take 4 s = ''null'' then Some (JNull, drop 4 s)
          else if take 4 s = ''true'' then Some (JBool True, drop 4 s)
          else if take 5 s = ''false'' then Some (JBool False, drop 5 s)
          else (case scan_number s of
                  Some r \<Rightarrow> Some r
                | None \<Rightarrow>
                    if take 3 s = ''NaN'' then Some (JFloat ''NaN'', drop 3 s)
                    else if take 8 s = ''Infinity'' then Some (JFloat ''Infinity'', drop 8 s)
                    else if take 9 s = ''-Infinity'' then Some (JFloat ''-Infinity'', drop 9 s)
                    else None))"
| "parse_items 0 acc s = None"
| "parse_items (Suc n) acc s =
     (case parse_value n s of
        None \<Rightarrow> None
      | Some (v, r) \<Rightarrow>
          (case dropWhile json_ws r of
             [] \<Rightarrow> None
           | d # ds \<Rightarrow>
               if d = CHR '']'' then Some (JList (acc @ [v]), ds)
               else if d = CHR '','' then parse_items n (acc @ [v]) (dropWhile json_ws ds)
               else None))"
| "parse_members 0 acc s = None"
| "parse_members (Suc n) acc s =
     (case s of
        [] \<Rightarrow> None
      | c # cs \<Rightarrow>
          if c \<noteq> CHR 0x22 then None
          else
            (case scan_string cs of
               None \<Rightarrow> None
             | Some (k, r) \<Rightarrow>
                 (case dropWhile json_ws r of
                    [] \<Rightarrow> None
                  | e # es \<Rightarrow>
                      if e \<noteq> CHR '':'' then None
                      else
                        (case parse_value n (dropWhile json_ws es) of
                           None \<Rightarrow> None
                         | Some (v, r2) \<Rightarrow>
                             (case dropWhile json_ws r2 of
                                [] \<Rightarrow> None
                              | d # ds \<Rightarrow>
                                  if d = CHR ''}'' then Some (JDict (dict_of (acc @ [(k, v)])), ds)
                                  else if d = CHR '','' then
                                    parse_members n (acc @ [(k, v)]) (dropWhile json_ws ds)
                                  else None)))))"

definition loads_model :: "string \<Rightarrow> exn + json" where
  "loads_model s =
     (case parse_value (2 * length s + 2) (dropWhile json_ws s) of
        None \<Rightarrow> Inl JSONDecodeError
      | Some (v, r) \<Rightarrow> if dropWhile json_ws r = [] then Inr v else Inl JSONDecodeError)"

section \<open>Paths and the file system\<close>

text \<open>
  A \<open>pathlib.PurePosixPath\<close>: its root (empty, one slash or two) and its parts.
\<close>

record path =
  root :: string
  parts :: "string list"

text \<open>The pieces of \<open>s\<close> between slashes.\<close>

fun split_slash :: "string \<Rightarrow> string list" where
  "split_slash [] = [[]]"
| "split_slash (c # cs) =
     (if c = CHR ''/'' then [] # split_slash cs
      else (case split_slash cs of [] \<Rightarrow> [[c]] | x # xs \<Rightarrow> (c # x) # xs))"

text \<open>
  \<open>Path(s)\<close>: \<open>posixpath.splitroot\<close>, then the non-empty pieces other than a single
  dot.
\<close>

definition Path :: "string \<Rightarrow> path" where
  "Path s =
     (let (r, rel) =
            (if take 1 s \<noteq> ''/'' then ([], s)
             else if take 1 (drop 1 s) \<noteq> ''/'' \<or> take 1 (drop 2 s) = ''/'' then (''/'', drop 1 s)
             else (''//'', drop 2 s))
      in \<lparr> root = r, parts = filter (\<lambda>x. x \<noteq> [] \<and> x \<noteq> ''.'') (split_slash rel) \<rparr>)"

fun join_slash :: "string list \<Rightarrow> string" where
  "join_slash [] = []"
| "join_slash [x] = x"
| "join_slash (x # y # ys) = x @ ''/'' @ join_slash (y # ys)"

text \<open>\<open>str(p)\<close>.\<close>

definition str_path :: "path \<Rightarrow> string" where
  "str_path p = (if root p = [] \<and> parts p = [] then ''.'' else root p @ join_slash (parts p))"

text \<open>\<open>p / s\<close>: an absolute \<open>s\<close> replaces \<open>p\<close>.\<close>

definition joinpath :: "path \<Rightarrow> string \<Rightarrow> path" where
  "joinpath p s = (let q = Path s in if root q \<noteq> [] then q else p\<lparr>parts := parts p @ parts q\<rparr>)"

text \<open>\<open>p.parent\<close>.\<close>

definition parent :: "path \<Rightarrow> path" where
  "parent p = p\<lparr>parts := butlast (parts p)\<rparr>"

text \<open>
  \<open>os.path.expanduser\<close> on one part that begins with a tilde, from the environment
  and the password database \<open>pw_dir\<close> (\<open>None\<close> asks for the current user).
\<close>

definition os_path_expanduser ::
  "(string option \<Rightarrow> string option) \<Rightarrow> (string \<Rightarrow> string option) \<Rightarrow> string \<Rightarrow> string" where
  "os_path_expanduser pw_dir env part =
     (let userhome =
            (if part = ''~'' then (case env ''HOME'' of Some h \<Rightarrow> Some h | None \<Rightarrow> pw_dir None)
             else pw_dir (Some (drop 1 part)))
      in case userhome of
           None \<Rightarrow> part
         | Some u \<Rightarrow>
             (let u' = rev (dropWhile (\<lambda>c. c = CHR ''/'') (rev u))
              in if u' = [] then ''/'' else u'))"

text \<open>\<open>p.expanduser()\<close>.\<close>

definition expanduser ::
  "(string option \<Rightarrow> string option) \<Rightarrow> (string \<Rightarrow> string option) \<Rightarrow> path \<Rightarrow> exn + path" where
  "expanduser pw_dir env p =
     (if root p = [] \<and> parts p \<noteq> [] \<and> take 1 (hd (parts p)) = ''~'' then
        (let homedir = os_path_expanduser pw_dir env (hd (parts p)) in
         if take 1 homedir = ''~'' then Inl (RuntimeError ''Could not determine home directory.'')
         else (let h = Path homedir in Inr (h\<lparr>parts := parts h @ tl (parts p)\<rparr>)))
      else Inr p)"

text \<open>
  The file system maps a path to what is there.  A path without parts (the root, the
  current directory) is a directory.  Links, permissions and the two names a file has
  through \<open>..\<close> or the current directory are not modelled.
\<close>

datatype node = Dir | File string

type_synonym fsys = "path \<Rightarrow> node option"

definition node_at :: "fsys \<Rightarrow> path \<Rightarrow> node option" where
  "node_at f p = (if parts p = [] then Some Dir else f p)"

definition is_dir :: "fsys \<Rightarrow> path \<Rightarrow> bool" where
  "is_dir f p = (node_at f p = Some Dir)"

text \<open>\<open>os.mkdir\<close>.\<close>

definition os_mkdir :: "fsys \<Rightarrow> path \<Rightarrow> exn + fsys" where
  "os_mkdir f p =
     (if node_at f p \<noteq> None then Inl FileExistsError
      else (case node_at f (parent p) of
              None \<Rightarrow> Inl FileNotFoundError
            | Some (File _) \<Rightarrow> Inl NotADirectoryError
            | Some Dir \<Rightarrow> Inr (f(p \<mapsto> Dir))))"

text \<open>\<open>p.mkdir(parents=True, exist_ok=True)\<close>, as \<open>pathlib\<close> writes it.\<close>

function mkdir_parents :: "fsys \<Rightarrow> path \<Rightarrow> exn + fsys" where
  "mkdir_parents f p =
     (case os_mkdir f p of
        Inr f' \<Rightarrow> Inr f'
      | Inl e \<Rightarrow>
          if e = FileNotFoundError then
            (if parent p = p then Inl e
             else (case mkdir_parents f (parent p) of
                     Inl e' \<Rightarrow> Inl e'
                   | Inr f1 \<Rightarrow>
                       (case os_mkdir f1 p of
                          Inr f2 \<Rightarrow> Inr f2
                        | Inl e2 \<Rightarrow>
                            if e2 = FileNotFoundError then Inl e2
                            else if is_dir f1 p then Inr f1 else Inl e2)))
          else if is_dir f p then Inr f else Inl e)"
  by pat_completeness auto
termination
proof (relation "measure (\<lambda>(f, p). length (parts p))")
  show "wf (measure (\<lambda>(f, p). length (parts p)))" by simp
next
  fix f :: fsys and p :: path and e :: exn
  assume "parent p \<noteq> p"
  then have "parts p \<noteq> []" by (auto simp: parent_def)
  then show "((f, parent p), (f, p)) \<in> measure (\<lambda>(f, p). length (parts p))"
    by (simp add: parent_def)
qed

declare mkdir_parents.simps [simp del]

text \<open>\<open>p.write_text(content)\<close>.\<close>

definition fs_write_text :: "fsys \<Rightarrow> path \<Rightarrow> string \<Rightarrow> exn + fsys" where
  "fs_write_text f p content =
     (if node_at f p = Some Dir then Inl IsADirectoryError
      else (case node_at f (parent p) of
              None \<Rightarrow> Inl FileNotFoundError
            | Some (File _) \<Rightarrow> Inl NotADirectoryError
            | Some Dir \<Rightarrow> Inr (f(p \<mapsto> File content))))"

text \<open>\<open>q\<close> is \<open>p\<close> or lies below it.\<close>

definition below :: "path \<Rightarrow> path \<Rightarrow> bool" where
  "below p q = (root q = root p \<and> take (length (parts p)) (parts q) = parts p)"

text \<open>
  \<open>shutil.rmtree(p, ignore_errors=True)\<close>: a directory goes with all below it;
  anything else stays, the error being ignored.
\<close>

definition fs_rmtree :: "fsys \<Rightarrow> path \<Rightarrow> fsys" where
  "fs_rmtree f p = (if is_dir f p then (\<lambda>q. if below p q then None else f q) else f)"

section \<open>Child processes and the state of the program\<close>

text \<open>
  A \<open>subprocess.Popen\<close> object together with what the operating system will let the
  supervisor see of the child: the lines its two pipes deliver (as \<open>readline\<close>
  returns them), the exit code it ends with if left alone (\<open>None\<close>: it never ends),
  the time it takes to go once terminated (\<open>None\<close>: it ignores the request), the
  code \<open>Popen\<close> reports when it goes on that request (\<open>-15\<close>, or the child's own
  code if it handles the signal), and whether signalling it is refused.

  The status tells where the child is: \<open>Running\<close>, and not signalled by the
  supervisor; \<open>Terminated\<close> or \<open>Killed\<close>, sent that signal and not known to be gone;
  \<open>Ended c\<close>, ended with code \<open>c\<close>, which the process object has not collected
  (\<open>returncode\<close> is still \<open>None\<close>); \<open>Exited c\<close>, reaped (\<open>returncode\<close> is \<open>c\<close>).
\<close>

datatype pstatus = Running | Terminated | Killed | Ended int | Exited int

record proc =
  pargs :: "string list"
  stdout_lines :: "string list"
  stderr_lines :: "string list"
  exit_code :: "int option"
  term_delay :: "nat option"
  term_code :: int
  signal_denied :: bool
  status :: pstatus

text \<open>The calls the program makes on the world outside, in the order it makes them.\<close>

datatype event =
    Spawn nat "string list"
  | Terminate nat
  | Kill nat
  | WaitFor nat "nat option"
  | Mkdir path
  | WriteText path string
  | Rmtree path
  | EmitPluginJson "string list"

text \<open>
  The state: \<open>os.environ\<close>, the file system, the process objects by handle, the
  module-level list \<open>CHILDREN\<close> (of handles), whether the signal handlers are
  installed, and the calls made so far.
\<close>

record world =
  environ :: "string \<Rightarrow> string option"
  fs :: fsys
  procs :: "nat \<Rightarrow> proc"
  next_handle :: nat
  CHILDREN :: "nat list"
  armed :: bool
  trace :: "event list"

text \<open>
  What the program takes from its libraries and its host: \<open>json.loads\<close>,
  \<open>json.dumps(\<cdot>, indent=2)\<close>, the password database, and the answer of
  \<open>subprocess.Popen\<close> to a command line and an environment.
\<close>

record host =
  json_loads :: "string \<Rightarrow> exn + json"
  json_dumps :: "json \<Rightarrow> string"
  pw_dir :: "string option \<Rightarrow> string option"
  popen :: "string list \<Rightarrow> (string \<Rightarrow> string option) \<Rightarrow> exn + proc"

definition log_event :: "event \<Rightarrow> world \<Rightarrow> world" where
  "log_event e w = w\<lparr>trace := trace w @ [e]\<rparr>"

definition set_status :: "nat \<Rightarrow> pstatus \<Rightarrow> world \<Rightarrow> world" where
  "set_status h st w = w\<lparr>procs := (procs w)(h := (procs w h)\<lparr>status := st\<rparr>)\<rparr>"

text \<open>Sequencing, \<open>try \<dots> except\<close> and \<open>try \<dots> finally\<close> over outcomes.\<close>

definition bind ::
  "'a outcome \<times> world \<Rightarrow> ('a \<Rightarrow> world \<Rightarrow> 'b outcome \<times> world) \<Rightarrow> 'b outcome \<times> world" where
  "bind m f =
     (case m of
        (Returns x, w) \<Rightarrow> f x w
      | (Raises e, w) \<Rightarrow> (Raises e, w)
      | (Blocks, w) \<Rightarrow> (Blocks, w))"

definition try_except ::
  "'a outcome \<times> world \<Rightarrow> (exn \<Rightarrow> bool) \<Rightarrow> (exn \<Rightarrow> world \<Rightarrow> 'a outcome \<times> world)
     \<Rightarrow> 'a outcome \<times> world" where
  "try_except m catches handler =
     (case m of
        (Raises e, w) \<Rightarrow> if catches e then handler e w else (Raises e, w)
      | (r, w) \<Rightarrow> (r, w))"

definition try_finally ::
  "'a outcome \<times> world \<Rightarrow> (world \<Rightarrow> unit outcome \<times> world) \<Rightarrow> 'a outcome \<times> world" where
  "try_finally m final =
     (case m of
        (Blocks, w) \<Rightarrow> (Blocks, w)
      | (r, w) \<Rightarrow>
          (case final w of
             (Returns _, w') \<Rightarrow> (r, w')
           | (Raises e, w') \<Rightarrow> (Raises e, w')
           | (Blocks, w') \<Rightarrow> (Blocks, w')))"

subsection \<open>The methods of \<open>Popen\<close>\<close>

text \<open>
  A \<open>Popen\<close> object has a lock, \<open>_waitpid_lock\<close>, which \<open>poll\<close> and \<open>wait\<close> take to
  ask the operating system about the child.  The lock is not reentrant.  Code that
  runs in the main thread while a \<open>wait()\<close> of the main thread is in progress (a
  signal handler) finds the lock of that object taken and cannot get it.  The first
  argument \<open>lk\<close> of the methods below is the handle, if any, whose lock is held in
  this way; in ordinary control flow it is \<open>None\<close>.
\<close>

text \<open>
  \<open>proc.poll()\<close>: the return code if it is known; without the lock, nothing; else a
  child that has ended is reaped.
\<close>

definition proc_poll :: "nat option \<Rightarrow> nat \<Rightarrow> world \<Rightarrow> int option \<times> world" where
  "proc_poll lk h w =
     (case status (procs w h) of
        Exited c \<Rightarrow> (Some c, w)
      | Ended c \<Rightarrow> if lk = Some h then (None, w) else (Some c, set_status h (Exited c) w)
      | _ \<Rightarrow> (None, w))"

text \<open>
  \<open>proc.send_signal(sig)\<close>, for SIGTERM (\<open>hard\<close> false) and SIGKILL (\<open>hard\<close> true):
  it polls; when the return code is known nothing is sent; otherwise \<open>os.kill\<close> sends
  the signal, or is refused with \<open>PermissionError\<close>.  A child that has ended takes no
  notice.
\<close>

definition send_signal :: "nat option \<Rightarrow> nat \<Rightarrow> bool \<Rightarrow> world \<Rightarrow> unit outcome \<times> world" where
  "send_signal lk h hard w =
     (case proc_poll lk h w of
        (Some c, w1) \<Rightarrow> (Returns (), w1)
      | (None, w1) \<Rightarrow>
          if signal_denied (procs w1 h) then (Raises PermissionError, w1)
          else (Returns (),
                case status (procs w1 h) of
                  Running \<Rightarrow> set_status h (if hard then Killed else Terminated) w1
                | Terminated \<Rightarrow> if hard then set_status h Killed w1 else w1
                | _ \<Rightarrow> w1))"

text \<open>\<open>proc.terminate()\<close> and \<open>proc.kill()\<close>.\<close>

definition proc_terminate :: "nat option \<Rightarrow> nat \<Rightarrow> world \<Rightarrow> unit outcome \<times> world" where
  "proc_terminate lk h w = send_signal lk h False (log_event (Terminate h) w)"

definition proc_kill :: "nat option \<Rightarrow> nat \<Rightarrow> world \<Rightarrow> unit outcome \<times> world" where
  "proc_kill lk h w = send_signal lk h True (log_event (Kill h) w)"

text \<open>
  \<open>proc.wait(timeout)\<close>.  A known return code is returned.  Without the lock the
  call cannot learn anything: with a time limit it times out, without one it blocks
  for ever on the lock.  With the lock: a child that has ended is reaped; so is a
  killed child, with code \<open>-9\<close>; a terminated child is reaped with its
  \<open>term_code\<close> if it goes within the time allowed, and if it does not the wait
  times out, or blocks when no time limit was given; a child that was not signalled
  is reaped with its own exit code, and if it never ends the wait times out, or blocks
  when no time limit was given.
\<close>

definition proc_wait :: "nat option \<Rightarrow> nat \<Rightarrow> nat option \<Rightarrow> world \<Rightarrow> int outcome \<times> world" where
  "proc_wait lk h tmo w =
     (let w1 = log_event (WaitFor h tmo) w;
          p = procs w h;
          locked = (case tmo of Some t \<Rightarrow> (Raises TimeoutExpired, w1) | None \<Rightarrow> (Blocks, w1))
      in
      case status p of
        Exited c \<Rightarrow> (Returns c, w1)
      | Ended c \<Rightarrow>
          if lk = Some h then locked else (Returns c, set_status h (Exited c) w1)
      | Killed \<Rightarrow>
          if lk = Some h then locked else (Returns (- 9), set_status h (Exited (- 9)) w1)
      | Terminated \<Rightarrow>
          if lk = Some h then locked
          else
            (case (term_delay p, tmo) of
               (Some d, Some t) \<Rightarrow>
                 if d \<le> t then (Returns (term_code p), set_status h (Exited (term_code p)) w1)
                 else (Raises TimeoutExpired, w1)
             | (Some d, None) \<Rightarrow> (Returns (term_code p), set_status h (Exited (term_code p)) w1)
             | (None, Some t) \<Rightarrow> (Raises TimeoutExpired, w1)
             | (None, None) \<Rightarrow> (Blocks, w1))
      | Running \<Rightarrow>
          if lk = Some h then locked
          else
            (case exit_code p of
               Some c \<Rightarrow> (Returns c, set_status h (Exited c) w1)
             | None \<Rightarrow>
                 (case tmo of Some t \<Rightarrow> (Raises TimeoutExpired, w1) | None \<Rightarrow> (Blocks, w1))))"

section \<open>Signal/Cleanup Coordinator\<close>

definition register_child :: "nat \<Rightarrow> world \<Rightarrow> world" where
  "register_child h w = w\<lparr>CHILDREN := CHILDREN w @ [h]\<rparr>"

text \<open>
  \<open>_terminate_process\<close>, \<open>_cleanup_children\<close> and the handler run either in
  ordinary control flow or, as a signal handler does, inside a \<open>wait()\<close> of the main
  thread; \<open>lk\<close> says which, as for the methods of \<open>Popen\<close>.
\<close>

definition terminate_process :: "nat option \<Rightarrow> nat \<Rightarrow> nat \<Rightarrow> world \<Rightarrow> unit outcome \<times> world" where
  "terminate_process lk h timeout w =
     (case proc_poll lk h w of
        (Some c, w0) \<Rightarrow> (Returns (), w0)
      | (None, w0) \<Rightarrow>
          bind (proc_terminate lk h w0) (\<lambda>_ w1.
            try_except
              (bind (proc_wait lk h (Some timeout) w1) (\<lambda>_ w2. (Returns (), w2)))
              (\<lambda>e. e = TimeoutExpired)
              (\<lambda>_ w2.
                 bind (proc_kill lk h w2) (\<lambda>_ w3.
                   bind (proc_wait lk h None w3) (\<lambda>_ w4. (Returns (), w4))))))"

text \<open>
  The loop of \<open>_cleanup_children\<close> over \<open>reversed(CHILDREN)\<close>, each call of
  \<open>_terminate_process\<close> (with its default timeout of 10) inside
  \<open>try \<dots> except Exception\<close>.
\<close>

fun cleanup_loop :: "nat option \<Rightarrow> nat list \<Rightarrow> world \<Rightarrow> unit outcome \<times> world" where
  "cleanup_loop lk [] w = (Returns (), w)"
| "cleanup_loop lk (h # hs) w =
     (case try_except (terminate_process lk h 10 w) is_Exception (\<lambda>exc w'. (Returns (), w')) of
        (Returns _, w') \<Rightarrow> cleanup_loop lk hs w'
      | (Raises e, w') \<Rightarrow> (Raises e, w')
      | (Blocks, w') \<Rightarrow> (Blocks, w'))"

definition cleanup_children_in :: "nat option \<Rightarrow> world \<Rightarrow> unit outcome \<times> world" where
  "cleanup_children_in lk w =
     bind (cleanup_loop lk (rev (CHILDREN w)) w) (\<lambda>_ w'. (Returns (), w'\<lparr>CHILDREN := []\<rparr>))"

text \<open>\<open>_cleanup_children\<close> as \<open>_plugin_main\<close> calls it: no \<open>wait()\<close> is in progress.\<close>

definition cleanup_children :: "world \<Rightarrow> unit outcome \<times> world" where
  "cleanup_children w = cleanup_children_in None w"

text \<open>\<open>handle_signals\<close> installs \<open>_handle\<close> for SIGTERM and SIGINT.\<close>

definition handle_signals :: "world \<Rightarrow> world" where
  "handle_signals w = w\<lparr>armed := True\<rparr>"

text \<open>
  The handler \<open>_handle\<close>, run in the main thread when one of the two signals arrives;
  \<open>lk\<close> is the handle on which the main thread was in \<open>wait()\<close> when the signal
  came, if it was in one.
\<close>

definition handle :: "nat option \<Rightarrow> world \<Rightarrow> unit outcome \<times> world" where
  "handle lk w = bind (cleanup_children_in lk w) (\<lambda>_ w'. (Raises (SystemExit 1), w'))"

section \<open>Environment Builder\<close>

definition prepare_environment ::
  "host \<Rightarrow> string \<Rightarrow> int \<Rightarrow> world \<Rightarrow> ((string \<Rightarrow> string option) \<times> path) outcome \<times> world" where
  "prepare_environment h state_root c w =
     (let env = environ w in
      case expanduser (pw_dir h) (environ w) (Path state_root) of
        Inl e \<Rightarrow> (Raises e, w)
      | Inr p \<Rightarrow>
          (let flwr_home = joinpath p (''cid-'' @ str_int c);
               w1 = log_event (Mkdir flwr_home) w
           in case mkdir_parents (fs w1) flwr_home of
                Inl e \<Rightarrow> (Raises e, w1)
              | Inr f \<Rightarrow>
                  (Returns (env(''FLWR_HOME'' \<mapsto> str_path flwr_home), flwr_home), w1\<lparr>fs := f\<rparr>)))"

section \<open>Process Supervisor\<close>

text \<open>The record \<open>_run_supernode\<close> returns when no train summary was captured.\<close>

definition fallback_metrics :: "options \<Rightarrow> json" where
  "fallback_metrics opts =
     JDict [(''kind'', JStr ''train''),
            (''partition_id'', JInt (cid opts)),
            (''metrics'', JDict []),
            (''message'', JStr ''No metrics emitted by the ClientApp.'')]"

text \<open>
  \<open>_run_supernode\<close>.  The two relay threads have ended when \<open>join\<close> returns: the one
  on the standard output has run \<open>_stream_lines\<close> with the hook \<open>_capture\<close> on the
  variable \<open>metrics\<close>, the other without a hook.  An exception that ends a thread
  stays in the thread.
\<close>

definition run_supernode ::
  "host \<Rightarrow> options \<Rightarrow> (string \<Rightarrow> string option) \<Rightarrow> world \<Rightarrow> json outcome \<times> world" where
  "run_supernode h opts env w =
     (let cmd = supernode_cmd opts in
      case popen h cmd env of
        Inl e \<Rightarrow> (Raises e, w)
      | Inr p \<Rightarrow>
          (let hd = next_handle w;
               w1 = log_event (Spawn hd cmd)
                      (w\<lparr>procs := (procs w)(hd := p\<lparr>pargs := cmd, status := Running\<rparr>),
                         next_handle := Suc hd\<rparr>);
               w2 = register_child hd w1;
               metrics = snd (stream_lines (Some (stdout_lines p)) (Some (capture (json_loads h))) None);
               u = snd (stream_lines (Some (stderr_lines p)) None ())
           in bind (proc_wait None hd None w2) (\<lambda>exit_code w3.
                if exit_code \<noteq> 0 then
                  (Raises (RuntimeError (''flower-supernode exited with '' @ str_int exit_code)), w3)
                else (Returns (case metrics of None \<Rightarrow> fallback_metrics opts | Some m \<Rightarrow> m), w3))))"

section \<open>The plugin\<close>

definition IMAGE_TAG :: string where
  "IMAGE_TAG = ''docker.io/fedmed/pl-supernode:0.0.5''"

definition REPO_URL :: string where
  "REPO_URL = ''https://github.com/EC528-Fall-2025/FedMed-ChRIS''"

text \<open>\<open>emit_plugin_json\<close> hands its argument vector to \<open>chris_plugin_info\<close>.\<close>

definition emit_plugin_json :: "world \<Rightarrow> unit outcome \<times> world" where
  "emit_plugin_json w =
     (Returns (),
      log_event (EmitPluginJson [''chris_plugin_info'', ''--dock-image'', IMAGE_TAG,
                                 ''--name'', ''pl-supernode'', ''--public-repo'', REPO_URL]) w)"

definition write_text :: "path \<Rightarrow> string \<Rightarrow> world \<Rightarrow> unit outcome \<times> world" where
  "write_text p content w =
     (let w1 = log_event (WriteText p content) w in
      case fs_write_text (fs w1) p content of
        Inl e \<Rightarrow> (Raises e, w1)
      | Inr f \<Rightarrow> (Returns (), w1\<lparr>fs := f\<rparr>))"

definition rmtree :: "path \<Rightarrow> world \<Rightarrow> world" where
  "rmtree p w = (let w1 = log_event (Rmtree p) w in w1\<lparr>fs := fs_rmtree (fs w1) p\<rparr>)"

text \<open>\<open>_plugin_main\<close>, as the decorator calls it with the parsed options.\<close>

definition plugin_main :: "host \<Rightarrow> options \<Rightarrow> path \<Rightarrow> world \<Rightarrow> unit outcome \<times> world" where
  "plugin_main h opts outputdir w0 =
     (let w = handle_signals w0 in
      if json opts then emit_plugin_json w
      else if total_clients opts \<le> 0 then (Raises (ValueError ''total-clients must be >= 1''), w)
      else if cid opts < 0 \<or> cid opts \<ge> total_clients opts then
        (Raises (ValueError ''cid must be within [0, total-clients)''), w)
      else
        bind (prepare_environment h (state_dir opts) (cid opts) w) (\<lambda>(env, flwr_home) w1.
          bind (try_finally (run_supernode h opts env w1) cleanup_children) (\<lambda>summary w2.
            (let metrics_path = joinpath outputdir (metrics_file opts) in
             bind (write_text metrics_path (json_dumps h summary) w2) (\<lambda>_ w3.
               if \<not> keep_state opts then (Returns (), rmtree flwr_home w3)
               else (Returns (), w3))))))"

section \<open>The sweep, as the specification words it\<close>

text \<open>A handle is still running when its child has not ended.\<close>

definition still_running :: "proc \<Rightarrow> bool" where
  "still_running p = (case status p of Ended c \<Rightarrow> False | Exited c \<Rightarrow> False | _ \<Rightarrow> True)"

text \<open>
  Whether a child that is still running is gone within \<open>t\<close> time units of a request
  to terminate: a child already killed is; another one is if it heeds the request in
  that time.
\<close>

definition goes_within :: "proc \<Rightarrow> nat \<Rightarrow> bool" where
  "goes_within p t =
     (case status p of
        Killed \<Rightarrow> True
      | _ \<Rightarrow> (case term_delay p of Some d \<Rightarrow> d \<le> t | None \<Rightarrow> False))"

text \<open>
  The calls the sweep owes one handle: none if the child is not running any more;
  otherwise a request to terminate and a wait of at most ten time units, followed, if
  the child is not gone by then, by a kill and a wait without limit.
\<close>

definition sweep_calls :: "world \<Rightarrow> nat \<Rightarrow> event list" where
  "sweep_calls w h =
     (let p = procs w h in
      if still_running p then
        [Terminate h, WaitFor h (Some 10)] @
          (if goes_within p 10 then [] else [Kill h, WaitFor h None])
      else [])"

section \<open>The summary of a run, as the specification words it\<close>

text \<open>
  The payload of a line: what follows the first marker token, trimmed; none when the
  line has no marker.
\<close>

definition payload_of :: "string \<Rightarrow> string option" where
  "payload_of line =
     (case find_sep SUMMARY_TOKEN line of None \<Rightarrow> None | Some (a, b) \<Rightarrow> Some (py_strip b))"

text \<open>
  The summary a line carries: its decoded payload, when the line has the marker, the
  payload decodes and its \<open>kind\<close> field equals \<open>train\<close>.
\<close>

definition train_summary :: "(string \<Rightarrow> exn + json) \<Rightarrow> string \<Rightarrow> json option" where
  "train_summary loads line =
     (case payload_of line of
        None \<Rightarrow> None
      | Some pl \<Rightarrow>
          (case loads pl of
             Inl e \<Rightarrow> None
           | Inr parsed \<Rightarrow>
               if dict_get parsed ''kind'' = Inr (JStr ''train'') then Some parsed else None))"

text \<open>The summary of the last line that carries one.\<close>

definition last_train_summary :: "(string \<Rightarrow> exn + json) \<Rightarrow> string list \<Rightarrow> json option" where
  "last_train_summary loads lines =
     (let xs = List.map_filter (train_summary loads) lines
      in if xs = [] then None else Some (last xs))"

text \<open>
  A line the extractor is written for: it has no marker, or its payload fails to
  decode with \<open>JSONDecodeError\<close>, or its payload decodes to a \<open>dict\<close>.
\<close>

definition object_or_undecodable :: "(string \<Rightarrow> exn + json) \<Rightarrow> string \<Rightarrow> bool" where
  "object_or_undecodable loads line =
     (case payload_of line of
        None \<Rightarrow> True
      | Some pl \<Rightarrow>
          (case loads pl of
             Inl e \<Rightarrow> e = JSONDecodeError
           | Inr parsed \<Rightarrow> (case parsed of JDict kvs \<Rightarrow> True | _ \<Rightarrow> False)))"

section \<open>The calls on the file system\<close>

text \<open>The calls on the file system among the calls made, in their order.\<close>

fun is_file_call :: "event \<Rightarrow> bool" where
  "is_file_call (Mkdir p) = True"
| "is_file_call (WriteText p c) = True"
| "is_file_call (Rmtree p) = True"
| "is_file_call e = False"

definition file_calls :: "event list \<Rightarrow> event list" where
  "file_calls t = filter is_file_call t"

section \<open>Sample runs\<close>

text \<open>
  A child, a host and states on which the theorems are run.  The theorems hold for
  every host; the sample host decodes with \<open>loads_model\<close>, and what it serialises to
  does not matter.  The sample state has the directories \<open>/out\<close> and \<open>/tmp\<close>.
\<close>

definition sample_proc :: "string list \<Rightarrow> int option \<Rightarrow> proc" where
  "sample_proc out code =
     \<lparr> pargs = [], stdout_lines = out, stderr_lines = [], exit_code = code,
       term_delay = Some 1, term_code = - 15, signal_denied = False, status = Running \<rparr>"

definition sample_host :: "proc \<Rightarrow> host" where
  "sample_host p =
     \<lparr> json_loads = loads_model, json_dumps = (\<lambda>j. ''{}''), pw_dir = (\<lambda>u. None),
       popen = (\<lambda>cmd env. Inr p) \<rparr>"

definition sample_world :: world where
  "sample_world =
     \<lparr> environ = [''HOME'' \<mapsto> ''/root''],
       fs = [\<lparr>root = ''/'', parts = [''out'']\<rparr> \<mapsto> Dir,
             \<lparr>root = ''/'', parts = [''tmp'']\<rparr> \<mapsto> Dir],
       procs = (\<lambda>h. sample_proc [] (Some 0)),
       next_handle = 0, CHILDREN = [], armed = False, trace = [] \<rparr>"

text \<open>
  Lines of the standard output: a train summary, a summary of another kind, a payload
  cut short, and a payload that is valid JSON but no object.
\<close>

definition train_line :: string where
  \<open>train_line = ''other text [fedmed-supernode-app] SUMMARY {"kind":"train","nodeId":2,"metrics":{"acc":0.9}}''\<close>

definition train_record :: json where
  "train_record = JDict [(''kind'', JStr ''train''), (''nodeId'', JInt 2), (''metrics'', JDict [(''acc'', JFloat ''0.9'')])]"

definition eval_line :: string where
  \<open>eval_line = ''[fedmed-supernode-app] SUMMARY {"kind":"eval","nodeId":2}''\<close>

definition malformed_line :: string where
  \<open>malformed_line = ''[fedmed-supernode-app] SUMMARY {"kind":"train"''\<close>

definition null_line :: string where
  "null_line = ''[fedmed-supernode-app] SUMMARY null''"

text \<open>
  A registry of four children: one that heeds a request to terminate after three
  time units, one that ignores it, one that has exited and is reaped, one that has
  ended and is not reaped.
\<close>

definition sweep_world :: world where
  "sweep_world =
     sample_world
       \<lparr> procs := (\<lambda>h. if h = 0 then (sample_proc [] None)\<lparr>term_delay := Some 3\<rparr>
                       else if h = 1 then (sample_proc [] None)\<lparr>term_delay := None\<rparr>
                       else if h = 2 then (sample_proc [] (Some 0))\<lparr>status := Exited 0\<rparr>
                       else (sample_proc [] (Some 7))\<lparr>status := Ended 7\<rparr>),
         CHILDREN := [0, 1, 2, 3] \<rparr>"

text \<open>
  The paths of the sample run with the default options: the output directory, the
  metrics file, the directory of node 0; the environment the child gets; the file
  system once the directory of the node is made.
\<close>

definition sample_out :: path where
  "sample_out = \<lparr>root = ''/'', parts = [''out'']\<rparr>"

definition sample_metrics_path :: path where
  "sample_metrics_path = \<lparr>root = ''/'', parts = [''out'', ''client_metrics.json'']\<rparr>"

definition sample_home :: path where
  "sample_home = \<lparr>root = ''/'', parts = [''tmp'', ''fedmed-flwr-node'', ''cid-0'']\<rparr>"

definition sample_env :: "string \<Rightarrow> string option" where
  "sample_env = [''HOME'' \<mapsto> ''/root'', ''FLWR_HOME'' \<mapsto> ''/tmp/fedmed-flwr-node/cid-0'']"

definition sample_fs1 :: fsys where
  "sample_fs1 =
     (fs sample_world)
       (\<lparr>root = ''/'', parts = [''tmp'', ''fedmed-flwr-node'']\<rparr> \<mapsto> Dir, sample_home \<mapsto> Dir)"

text \<open>
  The sample run with the default options and a child that never ends by itself,
  the handlers installed: the state in which the run is inside its \<open>proc.wait()\<close>;
  and that state when the child has ended (an interrupt sent to the process group has
  ended it, with code \<open>-2\<close>) and is not reaped.
\<close>

definition waiting_world :: world where
  "waiting_world =
     snd (run_supernode (sample_host (sample_proc [] None)) default_options sample_env
            (handle_signals sample_world))"

definition ended_waiting_world :: world where
  "ended_waiting_world = set_status 0 (Ended (- 2)) waiting_world"

section \<open>Facts about \<open>str(int)\<close>\<close>

lemma str_nat_nonempty: "str_nat n \<noteq> []"
  by (subst str_nat.simps) simp

lemma str_nat_small: "n < 10 \<Longrightarrow> str_nat n = [digit_char n]"
  by (subst str_nat.simps) simp

lemma str_nat_big: "\<not> n < 10 \<Longrightarrow> str_nat n = str_nat (n div 10) @ [digit_char (n mod 10)]"
  by (subst str_nat.simps) simp

lemma digit_char_inj: "a < 10 \<Longrightarrow> b < 10 \<Longrightarrow> digit_char a = digit_char b \<Longrightarrow> a = b"
  by (simp add: digit_char_def)

lemma digit_char_not_minus: "d < 10 \<Longrightarrow> digit_char d \<noteq> CHR ''-''"
proof
  assume d: "d < 10" and e: "digit_char d = CHR ''-''"
  from e have "of_char (digit_char d) = (of_char (CHR ''-'') :: nat)" by simp
  with d show False by (simp add: digit_char_def)
qed

lemma str_nat_inj: "str_nat a = str_nat b \<Longrightarrow> a = b"
proof (induction a arbitrary: b rule: str_nat.induct)
  case (1 n)
  note eq = \<open>str_nat n = str_nat b\<close>
  show ?case
  proof (cases "n < 10")
    case True
    show ?thesis
    proof (cases "b < 10")
      case bt: True
      from eq have "[digit_char n] = [digit_char b]"
        by (simp only: str_nat_small [OF True] str_nat_small [OF bt])
      with True bt show ?thesis by (auto dest: digit_char_inj)
    next
      case bf: False
      from eq have "[digit_char n] = str_nat (b div 10) @ [digit_char (b mod 10)]"
        by (simp only: str_nat_small [OF True] str_nat_big [OF bf])
      then have "str_nat (b div 10) = []" by simp
      then show ?thesis by (simp add: str_nat_nonempty)
    qed
  next
    case False
    show ?thesis
    proof (cases "b < 10")
      case bt: True
      from eq have "str_nat (n div 10) @ [digit_char (n mod 10)] = [digit_char b]"
        by (simp only: str_nat_small [OF bt] str_nat_big [OF False])
      then have "str_nat (n div 10) = []" by simp
      then show ?thesis by (simp add: str_nat_nonempty)
    next
      case bf: False
      from eq have "str_nat (n div 10) @ [digit_char (n mod 10)]
                    = str_nat (b div 10) @ [digit_char (b mod 10)]"
        by (simp only: str_nat_big [OF bf] str_nat_big [OF False])
      then have e1: "str_nat (n div 10) = str_nat (b div 10)"
        and e2: "digit_char (n mod 10) = digit_char (b mod 10)" by auto
      from "1.IH" [OF False e1] have d: "n div 10 = b div 10" .
      have "n mod 10 < 10" "b mod 10 < 10" by simp_all
      with e2 have m: "n mod 10 = b mod 10" by (rule digit_char_inj [rotated 2])
      from d m show ?thesis by (metis div_mult_mod_eq)
    qed
  qed
qed

lemma str_nat_hd_not_minus: "hd (str_nat n) \<noteq> CHR ''-''"
proof (induction n rule: str_nat.induct)
  case (1 n)
  show ?case
  proof (cases "n < 10")
    case True
    then show ?thesis by (simp add: str_nat_small digit_char_not_minus)
  next
    case False
    with 1 show ?thesis by (simp add: str_nat_big str_nat_nonempty)
  qed
qed

lemma str_nat_not_minus: "str_nat n \<noteq> CHR ''-'' # s"
  using str_nat_hd_not_minus [of n] by (cases "str_nat n") auto

lemma str_int_inj: "str_int a = str_int b \<Longrightarrow> a = b"
proof -
  assume eq: "str_int a = str_int b"
  show ?thesis
  proof (cases "a < 0"; cases "b < 0")
    assume "a < 0" "b < 0"
    with eq have "nat (- a) = nat (- b)" by (auto simp: str_int_def dest: str_nat_inj)
    with \<open>a < 0\<close> \<open>b < 0\<close> show ?thesis by simp
  next
    assume "a < 0" "\<not> b < 0"
    with eq have "str_nat (nat b) = CHR ''-'' # str_nat (nat (- a))" by (simp add: str_int_def)
    then show ?thesis by (simp add: str_nat_not_minus)
  next
    assume "\<not> a < 0" "b < 0"
    with eq have "str_nat (nat a) = CHR ''-'' # str_nat (nat (- b))" by (simp add: str_int_def)
    then show ?thesis by (simp add: str_nat_not_minus)
  next
    assume "\<not> a < 0" "\<not> b < 0"
    with eq have "nat a = nat b" by (auto simp: str_int_def dest: str_nat_inj)
    with \<open>\<not> a < 0\<close> \<open>\<not> b < 0\<close> show ?thesis by simp
  qed
qed


section \<open>Facts about the sweep\<close>

lemmas tp_defs =
  terminate_process_def proc_poll_def send_signal_def proc_terminate_def proc_wait_def
  proc_kill_def bind_def try_except_def log_event_def set_status_def Let_def

lemma terminate_process_exited:
  "status (procs w h) = Exited c \<Longrightarrow> terminate_process lk h t w = (Returns (), w)"
  by (simp add: terminate_process_def proc_poll_def)

lemma tp_frame:
  "CHILDREN (snd (terminate_process lk h t w)) = CHILDREN w \<and>
   fs (snd (terminate_process lk h t w)) = fs w \<and>
   environ (snd (terminate_process lk h t w)) = environ w \<and>
   next_handle (snd (terminate_process lk h t w)) = next_handle w \<and>
   armed (snd (terminate_process lk h t w)) = armed w"
  by (cases "status (procs w h)"; cases "term_delay (procs w h)")
     (auto simp: tp_defs)

lemma tp_other: "h' \<noteq> h \<Longrightarrow> procs (snd (terminate_process lk h t w)) h' = procs w h'"
  by (cases "status (procs w h)"; cases "term_delay (procs w h)")
     (auto simp: tp_defs)

lemma tp_denied:
  "signal_denied (procs (snd (terminate_process lk h t w)) h') = signal_denied (procs w h')"
  by (cases "status (procs w h)"; cases "term_delay (procs w h)")
     (auto simp: tp_defs)

lemma tp_file_calls:
  "file_calls (trace (snd (terminate_process lk h t w))) = file_calls (trace w)"
  by (cases "status (procs w h)"; cases "term_delay (procs w h)")
     (auto simp: tp_defs file_calls_def)

lemma tp_outcome:
  "fst (terminate_process lk h t w) = Returns () \<or>
   fst (terminate_process lk h t w) = Raises PermissionError \<or>
   fst (terminate_process lk h t w) = Blocks"
  by (cases "status (procs w h)"; cases "term_delay (procs w h)")
     (auto simp: tp_defs)

lemma tp_keeps_exited:
  "status (procs w h') = Exited c \<Longrightarrow> status (procs (snd (terminate_process lk h t w)) h') = Exited c"
  by (cases "h' = h") (simp_all add: tp_other terminate_process_exited)

lemma tp_keeps_ended:
  "\<not> still_running (procs w h') \<Longrightarrow> \<not> still_running (procs (snd (terminate_process lk h t w)) h')"
proof (cases "h' = h")
  case False
  then show "\<not> still_running (procs w h') \<Longrightarrow> ?thesis" by (simp add: tp_other)
next
  case True
  then show "\<not> still_running (procs w h') \<Longrightarrow> ?thesis"
    by (cases "status (procs w h)") (auto simp: tp_defs still_running_def)
qed

text \<open>Outside a \<open>wait()\<close> on the handle.\<close>

lemma tp_free_outcome:
  "lk \<noteq> Some h \<Longrightarrow>
   fst (terminate_process lk h t w) =
     (if still_running (procs w h) \<and> signal_denied (procs w h) then Raises PermissionError
      else Returns ())"
  by (cases "status (procs w h)"; cases "term_delay (procs w h)")
     (auto simp: tp_defs still_running_def)

lemma tp_trace:
  "lk \<noteq> Some h \<Longrightarrow>
   trace (snd (terminate_process lk h 10 w)) =
     trace w @ (if signal_denied (procs w h) then take 1 (sweep_calls w h) else sweep_calls w h)"
  by (cases "status (procs w h)"; cases "term_delay (procs w h)")
     (auto simp: tp_defs sweep_calls_def goes_within_def still_running_def)

lemma tp_reaped:
  "lk \<noteq> Some h \<Longrightarrow> \<not> signal_denied (procs w h) \<Longrightarrow>
   \<exists>c. status (procs (snd (terminate_process lk h t w)) h) = Exited c"
  by (cases "status (procs w h)"; cases "term_delay (procs w h)")
     (auto simp: tp_defs)

lemma tp_ended:
  "lk \<noteq> Some h \<Longrightarrow> status (procs w h) = Ended c \<Longrightarrow>
   terminate_process lk h t w = (Returns (), set_status h (Exited c) w)"
  by (simp add: terminate_process_def proc_poll_def)

text \<open>Inside a \<open>wait()\<close> on the handle.\<close>

lemma tp_held_blocks:
  "\<forall>c. status (procs w h) \<noteq> Exited c \<Longrightarrow> \<not> signal_denied (procs w h) \<Longrightarrow>
   fst (terminate_process (Some h) h t w) = Blocks"
  by (cases "status (procs w h)") (auto simp: tp_defs)

lemma tp_held_trace:
  "\<forall>c. status (procs w h) \<noteq> Exited c \<Longrightarrow> \<not> signal_denied (procs w h) \<Longrightarrow>
   trace (snd (terminate_process (Some h) h t w)) =
     trace w @ [Terminate h, WaitFor h (Some t), Kill h, WaitFor h None]"
  by (cases "status (procs w h)") (auto simp: tp_defs)

text \<open>The loop.\<close>

lemma cleanup_loop_Cons:
  "cleanup_loop lk (h # hs) w =
     (if fst (terminate_process lk h 10 w) = Blocks then (Blocks, snd (terminate_process lk h 10 w))
      else cleanup_loop lk hs (snd (terminate_process lk h 10 w)))"
  using tp_outcome [of lk h 10 w]
  by (cases "terminate_process lk h 10 w") (auto simp: try_except_def)

lemma cleanup_loop_Cons_free:
  "lk \<noteq> Some h \<Longrightarrow>
   cleanup_loop lk (h # hs) w = cleanup_loop lk hs (snd (terminate_process lk h 10 w))"
  by (simp add: cleanup_loop_Cons tp_free_outcome del: cleanup_loop.simps(2))

lemma cleanup_loop_returns: "fst (cleanup_loop None hs w) = Returns ()"
  by (induction hs arbitrary: w) (simp_all add: cleanup_loop_Cons_free del: cleanup_loop.simps(2))

lemma cleanup_loop_frame:
  "CHILDREN (snd (cleanup_loop lk hs w)) = CHILDREN w \<and>
   fs (snd (cleanup_loop lk hs w)) = fs w \<and>
   environ (snd (cleanup_loop lk hs w)) = environ w \<and>
   next_handle (snd (cleanup_loop lk hs w)) = next_handle w \<and>
   armed (snd (cleanup_loop lk hs w)) = armed w"
proof (induction hs arbitrary: w)
  case Nil
  show ?case by simp
next
  case (Cons h hs)
  show ?case
    unfolding cleanup_loop_Cons using Cons [of "snd (terminate_process lk h 10 w)"]
    by (simp add: tp_frame)
qed

lemma cleanup_loop_file_calls:
  "file_calls (trace (snd (cleanup_loop lk hs w))) = file_calls (trace w)"
proof (induction hs arbitrary: w)
  case Nil
  show ?case by simp
next
  case (Cons h hs)
  show ?case
    unfolding cleanup_loop_Cons using Cons [of "snd (terminate_process lk h 10 w)"]
    by (simp add: tp_file_calls)
qed

lemma cleanup_loop_other:
  "h \<notin> set hs \<Longrightarrow> procs (snd (cleanup_loop lk hs w)) h = procs w h"
proof (induction hs arbitrary: w)
  case Nil
  show ?case by simp
next
  case (Cons a hs)
  then have "h \<noteq> a" "h \<notin> set hs" by auto
  then show ?case
    unfolding cleanup_loop_Cons using Cons.IH [of "snd (terminate_process lk a 10 w)"]
    by (simp add: tp_other)
qed

lemma cleanup_loop_keeps_exited:
  "status (procs w h) = Exited c \<Longrightarrow> status (procs (snd (cleanup_loop lk hs w)) h) = Exited c"
proof (induction hs arbitrary: w)
  case Nil
  then show ?case by simp
next
  case (Cons a hs)
  from Cons.prems have "status (procs (snd (terminate_process lk a 10 w)) h) = Exited c"
    by (rule tp_keeps_exited)
  then have "status (procs (snd (cleanup_loop lk hs (snd (terminate_process lk a 10 w)))) h) = Exited c"
    by (rule Cons.IH)
  with Cons.prems show ?case
    unfolding cleanup_loop_Cons by (simp add: tp_keeps_exited)
qed

lemma cleanup_loop_denied:
  "signal_denied (procs (snd (cleanup_loop lk hs w)) h) = signal_denied (procs w h)"
proof (induction hs arbitrary: w)
  case Nil
  show ?case by simp
next
  case (Cons a hs)
  show ?case
    unfolding cleanup_loop_Cons using Cons [of "snd (terminate_process lk a 10 w)"]
    by (simp add: tp_denied)
qed

lemma sweep_calls_cong: "procs w' h = procs w h \<Longrightarrow> sweep_calls w' h = sweep_calls w h"
  by (simp add: sweep_calls_def)

lemma cleanup_loop_trace:
  "distinct hs \<Longrightarrow> \<forall>h \<in> set hs. \<not> signal_denied (procs w h) \<Longrightarrow>
   trace (snd (cleanup_loop None hs w)) = trace w @ concat (map (sweep_calls w) hs)"
proof (induction hs arbitrary: w)
  case Nil
  show ?case by simp
next
  case (Cons h hs)
  let ?w = "snd (terminate_process None h 10 w)"
  from Cons.prems have d: "distinct hs" and n: "h \<notin> set hs"
    and p: "\<not> signal_denied (procs w h)" by auto
  from Cons.prems have q: "\<forall>x \<in> set hs. \<not> signal_denied (procs ?w x)"
    by (simp add: tp_denied)
  have "map (sweep_calls ?w) hs = map (sweep_calls w) hs"
  proof (rule map_cong [OF refl])
    fix x assume "x \<in> set hs"
    with n have "x \<noteq> h" by auto
    then show "sweep_calls ?w x = sweep_calls w x"
      by (intro sweep_calls_cong tp_other)
  qed
  with Cons.IH [OF d q] p show ?case
    by (simp add: cleanup_loop_Cons_free tp_trace del: cleanup_loop.simps(2))
qed

lemma cleanup_loop_reaped:
  "h \<in> set hs \<Longrightarrow> \<not> signal_denied (procs w h) \<Longrightarrow>
   \<exists>c. status (procs (snd (cleanup_loop None hs w)) h) = Exited c"
proof (induction hs arbitrary: w)
  case Nil
  then show ?case by simp
next
  case (Cons a hs)
  let ?w = "snd (terminate_process None a 10 w)"
  have step: "cleanup_loop None (a # hs) w = cleanup_loop None hs ?w"
    by (rule cleanup_loop_Cons_free) simp
  show ?case
  proof (cases "h = a")
    case True
    with Cons.prems obtain c where "status (procs ?w h) = Exited c"
      using tp_reaped [of None a w 10] by auto
    then have "status (procs (snd (cleanup_loop None hs ?w)) h) = Exited c"
      by (rule cleanup_loop_keeps_exited)
    then show ?thesis unfolding step by blast
  next
    case False
    with Cons.prems have "h \<in> set hs" by simp
    moreover from Cons.prems have "\<not> signal_denied (procs ?w h)" by (simp add: tp_denied)
    ultimately show ?thesis unfolding step by (rule Cons.IH)
  qed
qed

lemma sweep_calls_handle:
  "e \<in> set (sweep_calls w h) \<Longrightarrow>
   e \<in> {Terminate h, Kill h, WaitFor h (Some 10), WaitFor h None} \<and> still_running (procs w h)"
  by (auto simp: sweep_calls_def Let_def split: if_splits)

lemma tp_calls_handle:
  assumes "e \<in> set (if signal_denied (procs w h) then take 1 (sweep_calls w h) else sweep_calls w h)"
  shows "e \<in> {Terminate h, Kill h, WaitFor h (Some 10), WaitFor h None} \<and> still_running (procs w h)"
proof -
  from assms have "e \<in> set (sweep_calls w h)"
    by (auto split: if_splits dest: in_set_takeD)
  then show ?thesis by (rule sweep_calls_handle)
qed

lemma cleanup_loop_events:
  "\<exists>evs. trace (snd (cleanup_loop None hs w)) = trace w @ evs \<and>
     (\<forall>h. \<not> still_running (procs w h) \<longrightarrow>
        Terminate h \<notin> set evs \<and> Kill h \<notin> set evs \<and> (\<forall>t. WaitFor h t \<notin> set evs))"
proof (induction hs arbitrary: w)
  case Nil
  show ?case by simp
next
  case (Cons a hs)
  let ?w = "snd (terminate_process None a 10 w)"
  let ?c = "if signal_denied (procs w a) then take 1 (sweep_calls w a) else sweep_calls w a"
  have step: "cleanup_loop None (a # hs) w = cleanup_loop None hs ?w"
    by (rule cleanup_loop_Cons_free) simp
  have tr: "trace ?w = trace w @ ?c"
    by (rule tp_trace) simp
  from Cons [of ?w] obtain evs where
    t: "trace (snd (cleanup_loop None hs ?w)) = trace ?w @ evs" and
    q: "\<And>h. \<not> still_running (procs ?w h) \<Longrightarrow>
          Terminate h \<notin> set evs \<and> Kill h \<notin> set evs \<and> (\<forall>t. WaitFor h t \<notin> set evs)"
    by blast
  have "trace (snd (cleanup_loop None (a # hs) w)) = trace w @ (?c @ evs)"
    unfolding step by (simp only: t tr append_assoc)
  moreover have "Terminate h \<notin> set (?c @ evs) \<and> Kill h \<notin> set (?c @ evs)
      \<and> (\<forall>t. WaitFor h t \<notin> set (?c @ evs))"
    if ex: "\<not> still_running (procs w h)" for h
  proof -
    from ex have "\<not> still_running (procs ?w h)" by (rule tp_keeps_ended)
    note later = q [OF this]
    have now: "e \<notin> set ?c" if e: "e = Terminate h \<or> e = Kill h \<or> (\<exists>t. e = WaitFor h t)" for e
    proof
      assume "e \<in> set ?c"
      then have "e \<in> {Terminate a, Kill a, WaitFor a (Some 10), WaitFor a None} \<and>
          still_running (procs w a)"
        by (rule tp_calls_handle)
      with e ex show False by auto
    qed
    have "Terminate h \<notin> set ?c" "Kill h \<notin> set ?c" "\<And>t. WaitFor h t \<notin> set ?c"
      by (rule now, simp)+
    with later show ?thesis by (simp only: set_append Un_iff) blast
  qed
  ultimately show ?case by blast
qed

lemma cleanup_loop_held_blocks:
  "h \<in> set hs \<Longrightarrow> \<forall>c. status (procs w h) \<noteq> Exited c \<Longrightarrow> \<not> signal_denied (procs w h) \<Longrightarrow>
   fst (cleanup_loop (Some h) hs w) = Blocks"
proof (induction hs arbitrary: w)
  case Nil
  then show ?case by simp
next
  case (Cons a hs)
  let ?w = "snd (terminate_process (Some h) a 10 w)"
  show ?case
  proof (cases "a = h")
    case True
    with Cons.prems have "fst (terminate_process (Some h) a 10 w) = Blocks"
      by (simp add: tp_held_blocks)
    then show ?thesis by (simp add: cleanup_loop_Cons del: cleanup_loop.simps(2))
  next
    case False
    then have step: "cleanup_loop (Some h) (a # hs) w = cleanup_loop (Some h) hs ?w"
      by (intro cleanup_loop_Cons_free) simp
    from False have same: "procs ?w h = procs w h" by (intro tp_other) simp
    from False Cons.prems have "h \<in> set hs" by simp
    moreover from Cons.prems have "\<forall>c. status (procs ?w h) \<noteq> Exited c" by (simp add: same)
    moreover from Cons.prems have "\<not> signal_denied (procs ?w h)" by (simp add: same)
    ultimately show ?thesis unfolding step by (rule Cons.IH)
  qed
qed

lemma cleanup_children_eq:
  "cleanup_children w = (Returns (), (snd (cleanup_loop None (rev (CHILDREN w)) w))\<lparr>CHILDREN := []\<rparr>)"
  using cleanup_loop_returns [of "rev (CHILDREN w)" w]
  by (cases "cleanup_loop None (rev (CHILDREN w)) w")
     (simp add: cleanup_children_def cleanup_children_in_def bind_def)

lemma cleanup_children_empty: "CHILDREN w = [] \<Longrightarrow> cleanup_children w = (Returns (), w)"
  by (simp add: cleanup_children_def cleanup_children_in_def bind_def)

lemma cleanup_children_frame:
  "fst (cleanup_children w) = Returns () \<and>
   fs (snd (cleanup_children w)) = fs w \<and>
   environ (snd (cleanup_children w)) = environ w \<and>
   file_calls (trace (snd (cleanup_children w))) = file_calls (trace w)"
  by (simp add: cleanup_children_eq cleanup_loop_frame cleanup_loop_file_calls)

section \<open>Properties of the Command Builder\<close>

lemma transport_flag_cases:
  "transport_flag t = [''--grpc-rere''] \<or> transport_flag t = [''--grpc-adapter''] \<or>
   transport_flag t = [''--rest'']"
  by (simp add: transport_flag_def)

text \<open>
  C6.  Whatever the transport string, \<open>_transport_flag\<close> returns one flag (it has no
  raising branch): the remote-procedure flag for \<open>grpc-rere\<close>, the adapter flag for
  \<open>grpc-adapter\<close>, the REST flag for every other string; and the argument list built
  from it holds exactly one element of the set of transport flags, that one.
\<close>

theorem C6_transport_selection:
  "transport_flag ''grpc-rere'' = [''--grpc-rere''] \<and>
   transport_flag ''grpc-adapter'' = [''--grpc-adapter''] \<and>
   (t \<noteq> ''grpc-rere'' \<and> t \<noteq> ''grpc-adapter'' \<longrightarrow> transport_flag t = [''--rest'']) \<and>
   filter (\<lambda>a. a \<in> set transport_flags) (supernode_cmd (opts\<lparr>transport := t\<rparr>)) = transport_flag t \<and>
   length (filter (\<lambda>a. a \<in> set transport_flags) (supernode_cmd (opts\<lparr>transport := t\<rparr>))) = 1"
proof -
  have sel: "filter (\<lambda>a. a \<in> set transport_flags) (transport_flag t) = transport_flag t"
    using transport_flag_cases [of t] by (auto simp: transport_flags_def)
  have cmd: "filter (\<lambda>a. a \<in> set transport_flags) (supernode_cmd (opts\<lparr>transport := t\<rparr>))
      = transport_flag t"
    by (simp add: sel supernode_cmd_def Let_def) (simp add: transport_flags_def as_flag_def)
  have one: "length (transport_flag t) = 1"
    using transport_flag_cases [of t] by auto
  show ?thesis
    by (simp only: cmd one) (simp add: transport_flag_def)
qed

theorem C6_transport_selection_witness:
  "transport_flag ''grpc-rere'' = [''--grpc-rere''] \<and>
   transport_flag ''grpc-adapter'' = [''--grpc-adapter''] \<and>
   transport_flag ''grpc-rer'' = [''--rest''] \<and>
   filter (\<lambda>a. a \<in> set transport_flags) (supernode_cmd (default_options\<lparr>transport := ''grpc-rer''\<rparr>))
     = [''--rest'']"
  using C6_transport_selection [of "''grpc-rer''" default_options] by simp

section \<open>Facts about the supervised run\<close>

lemma run_supernode_exit:
  assumes "popen h (supernode_cmd opts) env = Inr p" and "exit_code p = Some c"
  shows "fst (run_supernode h opts env w) =
           (if c \<noteq> 0 then Raises (RuntimeError (''flower-supernode exited with '' @ str_int c))
            else Returns (case snd (stream_lines (Some (stdout_lines p)) (Some (capture (json_loads h))) None) of
                            None \<Rightarrow> fallback_metrics opts | Some m \<Rightarrow> m))"
  using assms
  by (simp add: run_supernode_def Let_def proc_wait_def log_event_def register_child_def
      set_status_def bind_def)

lemma capture_train_line: "capture loads_model train_line m = Inr (Some train_record)"
  unfolding train_line_def train_record_def by code_simp

lemma rstrip_train: "py_rstrip (train_line @ [CHR 0x0A]) = train_line"
  unfolding train_line_def by code_simp

lemma stream_train: "stream_lines (Some [train_line @ [CHR 0x0A]]) (Some (capture loads_model)) None = (None, Some train_record)"
  by (simp add: stream_lines_def rstrip_train capture_train_line Let_def)

section \<open>Properties of the Cleanup Coordinator\<close>

lemma waiting_world_run:
  "fst (run_supernode (sample_host (sample_proc [] None)) default_options sample_env
          (handle_signals sample_world)) = Blocks"
  by (simp add: run_supernode_def sample_host_def sample_proc_def sample_world_def
      handle_signals_def Let_def proc_wait_def log_event_def register_child_def bind_def)

lemma waiting_world_child:
  "CHILDREN waiting_world = [0]"
  "status (procs waiting_world 0) = Running"
  "term_delay (procs waiting_world 0) = Some 1"
  "signal_denied (procs waiting_world 0) = False"
  by (simp_all add: waiting_world_def run_supernode_def sample_host_def sample_proc_def
      sample_world_def handle_signals_def Let_def proc_wait_def log_event_def
      register_child_def bind_def)

lemma ended_waiting_world_child:
  "CHILDREN ended_waiting_world = [0]"
  "status (procs ended_waiting_world 0) = Ended (- 2)"
  "signal_denied (procs ended_waiting_world 0) = False"
  by (simp_all add: ended_waiting_world_def set_status_def waiting_world_child)

text \<open>
  The sweep in ordinary control flow, where no \<open>wait()\<close> is in progress, and the
  handler when the signal finds the main thread outside every \<open>wait()\<close>.  When the
  handles in the registry are distinct and none of the children refuses a signal,
  \<open>_cleanup_children\<close> returns, leaves the registry empty, and makes exactly the
  calls the specification words, handle by handle in reverse order of registration: for
  a child still running a request to terminate and a wait of at most ten time units,
  and only if the child is not gone by then a kill and a wait without limit.  Every
  registered child has been reaped afterwards.  The handler does the same and ends in
  \<open>SystemExit(1)\<close>.
\<close>

theorem sweep_outside_wait:
  assumes "distinct (CHILDREN w)" and "\<forall>h \<in> set (CHILDREN w). \<not> signal_denied (procs w h)"
  shows "fst (cleanup_children w) = Returns () \<and>
         CHILDREN (snd (cleanup_children w)) = [] \<and>
         trace (snd (cleanup_children w)) = trace w @ concat (map (sweep_calls w) (rev (CHILDREN w))) \<and>
         (\<forall>h \<in> set (CHILDREN w). \<exists>c. status (procs (snd (cleanup_children w)) h) = Exited c) \<and>
         handle None w = (Raises (SystemExit 1), snd (cleanup_children w))"
proof -
  from assms have "distinct (rev (CHILDREN w))"
    and "\<forall>h \<in> set (rev (CHILDREN w)). \<not> signal_denied (procs w h)" by simp_all
  then have "trace (snd (cleanup_loop None (rev (CHILDREN w)) w))
      = trace w @ concat (map (sweep_calls w) (rev (CHILDREN w)))"
    by (rule cleanup_loop_trace)
  moreover have "\<exists>c. status (procs (snd (cleanup_loop None (rev (CHILDREN w)) w)) h) = Exited c"
    if "h \<in> set (CHILDREN w)" for h
    using that assms(2) cleanup_loop_reaped [of h "rev (CHILDREN w)" w] by simp
  moreover have "handle None w = (Raises (SystemExit 1), snd (cleanup_children w))"
    using cleanup_children_eq [of w]
    by (simp add: handle_def cleanup_children_def bind_def)
  ultimately show ?thesis by (simp add: cleanup_children_eq)
qed

theorem sweep_outside_wait_witness:
  "distinct (CHILDREN sweep_world) \<and>
   CHILDREN (snd (cleanup_children sweep_world)) = [] \<and>
   trace (snd (cleanup_children sweep_world)) =
     [Terminate 1, WaitFor 1 (Some 10), Kill 1, WaitFor 1 None, Terminate 0, WaitFor 0 (Some 10)] \<and>
   (\<exists>c. status (procs (snd (cleanup_children sweep_world)) 3) = Exited c) \<and>
   fst (handle None sweep_world) = Raises (SystemExit 1)"
proof -
  have d: "distinct (CHILDREN sweep_world)" by (simp add: sweep_world_def)
  have n: "\<forall>h \<in> set (CHILDREN sweep_world). \<not> signal_denied (procs sweep_world h)"
    by (simp add: sweep_world_def sample_proc_def)
  have m: "3 \<in> set (CHILDREN sweep_world)" by (simp add: sweep_world_def)
  have t: "trace sweep_world @ concat (map (sweep_calls sweep_world) (rev (CHILDREN sweep_world)))
      = [Terminate 1, WaitFor 1 (Some 10), Kill 1, WaitFor 1 None, Terminate 0, WaitFor 0 (Some 10)]"
    by (simp add: sweep_world_def sample_world_def sample_proc_def sweep_calls_def
        goes_within_def still_running_def)
  from sweep_outside_wait [OF d n] m d t show ?thesis by simp
qed

text \<open>
  The sweep run twice in ordinary control flow.  \<open>_cleanup_children\<close> never raises;
  run a second time right after, it returns and changes nothing, making no call at
  all.  \<open>_terminate_process\<close> on a handle whose child has ended returns without a
  call (a child not yet reaped is reaped by the \<open>poll()\<close>), and the sweep
  sends no terminate and no kill to such a handle.
\<close>

theorem sweep_twice_outside_wait:
  "fst (cleanup_children w) = Returns () \<and>
   cleanup_children (snd (cleanup_children w)) = (Returns (), snd (cleanup_children w)) \<and>
   (status (procs w h) = Exited c \<longrightarrow> terminate_process None h t w = (Returns (), w)) \<and>
   (\<not> still_running (procs w h) \<longrightarrow>
      fst (terminate_process None h t w) = Returns () \<and>
      trace (snd (terminate_process None h 10 w)) = trace w \<and>
      (\<exists>evs. trace (snd (cleanup_children w)) = trace w @ evs \<and>
             Terminate h \<notin> set evs \<and> Kill h \<notin> set evs))"
proof -
  have "CHILDREN (snd (cleanup_children w)) = []" by (simp add: cleanup_children_eq)
  then have two: "cleanup_children (snd (cleanup_children w)) = (Returns (), snd (cleanup_children w))"
    by (rule cleanup_children_empty)
  have ex: "\<exists>evs. trace (snd (cleanup_children w)) = trace w @ evs \<and>
             Terminate h \<notin> set evs \<and> Kill h \<notin> set evs" if "\<not> still_running (procs w h)"
    using that cleanup_loop_events [of "rev (CHILDREN w)" w] by (auto simp: cleanup_children_eq)
  have quiet: "trace (snd (terminate_process None h 10 w)) = trace w"
    if "\<not> still_running (procs w h)"
    using that tp_trace [of None h w] by (simp add: sweep_calls_def)
  show ?thesis
    using two ex quiet
    by (simp add: cleanup_children_eq terminate_process_exited tp_free_outcome)
qed

theorem sweep_twice_outside_wait_witness:
  "\<not> still_running (procs sweep_world 3) \<and>
   fst (terminate_process None 3 10 sweep_world) = Returns () \<and>
   trace (snd (terminate_process None 3 10 sweep_world)) = trace sweep_world \<and>
   terminate_process None 2 10 sweep_world = (Returns (), sweep_world) \<and>
   fst (cleanup_children (snd (cleanup_children sweep_world))) = Returns () \<and>
   trace (snd (cleanup_children (snd (cleanup_children sweep_world))))
     = trace (snd (cleanup_children sweep_world))"
proof -
  have s: "\<not> still_running (procs sweep_world 3)" "status (procs sweep_world 2) = Exited 0"
    by (simp_all add: sweep_world_def sample_proc_def still_running_def)
  from sweep_twice_outside_wait [of sweep_world 3 7 10] sweep_twice_outside_wait [of sweep_world 2 0 10] s
  show ?thesis by simp
qed

text \<open>
  C4, where the code departs from it.  The handler runs in the main thread, and the
  main thread of a run is inside \<open>proc.wait()\<close> on its child, holding the lock of
  that process object.  In the sample run the child goes one time unit after a request
  to terminate, so the sweep owes it a request and a bounded wait and no more.  The
  handler makes the request; its bounded wait cannot get the lock and times out
  though the child is gone; it kills; and its wait without limit blocks on the lock for
  ever.  The registry is never cleared and \<open>SystemExit(1)\<close> is never raised.
\<close>

theorem C4_sweep_inside_wait_blocks:
  "fst (run_supernode (sample_host (sample_proc [] None)) default_options sample_env
          (handle_signals sample_world)) = Blocks \<and>
   CHILDREN waiting_world = [0] \<and>
   still_running (procs waiting_world 0) \<and>
   goes_within (procs waiting_world 0) 10 \<and>
   sweep_calls waiting_world 0 = [Terminate 0, WaitFor 0 (Some 10)] \<and>
   fst (handle (Some 0) waiting_world) = Blocks \<and>
   trace (snd (handle (Some 0) waiting_world)) =
     trace waiting_world @ [Terminate 0, WaitFor 0 (Some 10), Kill 0, WaitFor 0 None] \<and>
   CHILDREN (snd (handle (Some 0) waiting_world)) = [0]"
proof -
  have nx: "\<forall>c. status (procs waiting_world 0) \<noteq> Exited c"
    and nd: "\<not> signal_denied (procs waiting_world 0)"
    by (simp_all add: waiting_world_child)
  have b: "fst (terminate_process (Some 0) 0 10 waiting_world) = Blocks"
    using nx nd by (rule tp_held_blocks)
  have t: "trace (snd (terminate_process (Some 0) 0 10 waiting_world)) =
      trace waiting_world @ [Terminate 0, WaitFor 0 (Some 10), Kill 0, WaitFor 0 None]"
    using nx nd by (rule tp_held_trace)
  have l: "cleanup_loop (Some 0) [0] waiting_world =
      (Blocks, snd (terminate_process (Some 0) 0 10 waiting_world))"
    by (simp add: cleanup_loop_Cons b del: cleanup_loop.simps(2))
  have h: "handle (Some 0) waiting_world =
      (Blocks, snd (terminate_process (Some 0) 0 10 waiting_world))"
    by (simp add: handle_def cleanup_children_in_def waiting_world_child l bind_def
        del: cleanup_loop.simps)
  show ?thesis
    by (simp add: h t tp_frame waiting_world_run waiting_world_child sweep_calls_def
        goes_within_def still_running_def)
qed

text \<open>
  C5, where the code departs from it.  In the same place, inside the \<open>proc.wait()\<close>
  of the main thread, a child that has ended and is not reaped is not left alone:
  \<open>poll()\<close> cannot get the lock and answers \<open>None\<close>, so \<open>_terminate_process\<close>
  requests termination of the ended child, waits its ten time units out, kills, and
  blocks for ever in the last wait.  In ordinary control flow the same call on the
  same child makes no call and returns.
\<close>

theorem C5_ended_child_inside_wait:
  "status (procs ended_waiting_world 0) = Ended (- 2) \<and>
   \<not> still_running (procs ended_waiting_world 0) \<and>
   fst (terminate_process (Some 0) 0 10 ended_waiting_world) = Blocks \<and>
   trace (snd (terminate_process (Some 0) 0 10 ended_waiting_world)) =
     trace ended_waiting_world @ [Terminate 0, WaitFor 0 (Some 10), Kill 0, WaitFor 0 None] \<and>
   fst (terminate_process None 0 10 ended_waiting_world) = Returns () \<and>
   trace (snd (terminate_process None 0 10 ended_waiting_world)) = trace ended_waiting_world"
proof -
  have nx: "\<forall>c. status (procs ended_waiting_world 0) \<noteq> Exited c"
    and nd: "\<not> signal_denied (procs ended_waiting_world 0)"
    by (simp_all add: ended_waiting_world_child)
  have b: "fst (terminate_process (Some 0) 0 10 ended_waiting_world) = Blocks"
    using nx nd by (rule tp_held_blocks)
  have t: "trace (snd (terminate_process (Some 0) 0 10 ended_waiting_world)) =
      trace ended_waiting_world @ [Terminate 0, WaitFor 0 (Some 10), Kill 0, WaitFor 0 None]"
    using nx nd by (rule tp_held_trace)
  have f: "terminate_process None 0 10 ended_waiting_world =
      (Returns (), set_status 0 (Exited (- 2)) ended_waiting_world)"
    by (rule tp_ended) (simp_all add: ended_waiting_world_child)
  show ?thesis
    by (simp add: b t f ended_waiting_world_child still_running_def set_status_def)
qed

text \<open>
  The handler inside a \<open>wait()\<close>, in every state.  When the signal finds the main
  thread inside \<open>wait()\<close> on a registered handle \<open>h\<close> (the return code of \<open>h\<close> is
  not known then) and the child does not refuse a signal, the handler never returns:
  the registry is left as it is and \<open>SystemExit(1)\<close> is not raised.
\<close>

theorem handler_inside_wait_never_returns:
  assumes "h \<in> set (CHILDREN w)" and "\<forall>c. status (procs w h) \<noteq> Exited c"
    and "\<not> signal_denied (procs w h)"
  shows "fst (handle (Some h) w) = Blocks \<and> CHILDREN (snd (handle (Some h) w)) = CHILDREN w"
proof -
  from assms have "fst (cleanup_loop (Some h) (rev (CHILDREN w)) w) = Blocks"
    by (intro cleanup_loop_held_blocks) simp_all
  then show ?thesis
    using cleanup_loop_frame [of "Some h" "rev (CHILDREN w)" w]
    by (cases "cleanup_loop (Some h) (rev (CHILDREN w)) w")
       (simp add: handle_def cleanup_children_in_def bind_def)
qed

theorem handler_inside_wait_never_returns_witness:
  "fst (handle (Some 0) ended_waiting_world) = Blocks \<and>
   CHILDREN (snd (handle (Some 0) ended_waiting_world)) = [0]"
proof -
  have "0 \<in> set (CHILDREN ended_waiting_world)"
    "\<forall>c. status (procs ended_waiting_world 0) \<noteq> Exited c"
    "\<not> signal_denied (procs ended_waiting_world 0)"
    by (simp_all add: ended_waiting_world_child)
  from handler_inside_wait_never_returns [OF this] show ?thesis
    by (simp add: ended_waiting_world_child)
qed

section \<open>Properties of the Process Supervisor\<close>

lemma fallback_fields:
  "dict_get (fallback_metrics opts) ''kind'' = Inr (JStr ''train'') \<and>
   dict_get (fallback_metrics opts) ''partition_id'' = Inr (JInt (cid opts)) \<and>
   dict_get (fallback_metrics opts) ''metrics'' = Inr (JDict []) \<and>
   dict_get (fallback_metrics opts) ''message'' = Inr (JStr ''No metrics emitted by the ClientApp.'')"
  by (simp add: fallback_metrics_def)

lemma str_int_137: "str_int 137 = ''137''"
  by code_simp

text \<open>
  C2.  When \<open>Popen\<close> gives a child and that child ends with an exit code other than
  zero, \<open>_run_supernode\<close> raises \<open>RuntimeError\<close> with the message
  \<open>flower-supernode exited with\<close> followed by that code, which the message
  determines; this is so whatever the child wrote to its standard output, so a summary
  captured from it is not returned.
\<close>

theorem C2_nonzero_exit_raises:
  assumes "popen h (supernode_cmd opts) env = Inr p"
    and "exit_code p = Some c"
    and "c \<noteq> 0"
  shows "fst (run_supernode h opts env w) =
           Raises (RuntimeError (''flower-supernode exited with '' @ str_int c)) \<and>
         (\<forall>c'. RuntimeError (''flower-supernode exited with '' @ str_int c') =
                RuntimeError (''flower-supernode exited with '' @ str_int c) \<longrightarrow> c' = c)"
  using run_supernode_exit [OF assms(1,2), where w = w] assms(3)
  by (auto dest: str_int_inj)

theorem C2_nonzero_exit_raises_witness:
  "fst (run_supernode (sample_host (sample_proc [train_line @ [CHR 0x0A]] (Some 137)))
          default_options Map.empty sample_world)
     = Raises (RuntimeError ''flower-supernode exited with 137'') \<and>
   snd (stream_lines (Some [train_line @ [CHR 0x0A]]) (Some (capture loads_model)) None)
     = Some train_record"
proof -
  let ?p = "sample_proc [train_line @ [CHR 0x0A]] (Some 137)"
  have a: "popen (sample_host ?p) (supernode_cmd default_options) Map.empty = Inr ?p"
    by (simp add: sample_host_def)
  have b: "exit_code ?p = Some 137" by (simp add: sample_proc_def)
  have c: "(137::int) \<noteq> 0" by simp
  from C2_nonzero_exit_raises [OF a b c, of sample_world] show ?thesis
    by (simp add: str_int_137 stream_train)
qed

text \<open>
  C3.  When the child ends with exit code zero, \<open>_run_supernode\<close> returns the record
  left in \<open>metrics\<close> by the relay of the standard output if there is one, that very
  record; if there is none it returns the fallback record, whose kind is \<open>train\<close>,
  whose \<open>partition_id\<close> is the configured node id, whose metrics are the empty
  mapping and whose message is not empty.
\<close>

theorem C3_zero_exit_result:
  assumes "popen h (supernode_cmd opts) env = Inr p"
    and "exit_code p = Some 0"
  shows "(snd (stream_lines (Some (stdout_lines p)) (Some (capture (json_loads h))) None) = None
            \<longrightarrow> fst (run_supernode h opts env w) = Returns (fallback_metrics opts)) \<and>
         (\<forall>m. snd (stream_lines (Some (stdout_lines p)) (Some (capture (json_loads h))) None) = Some m
            \<longrightarrow> fst (run_supernode h opts env w) = Returns m) \<and>
         dict_get (fallback_metrics opts) ''kind'' = Inr (JStr ''train'') \<and>
         dict_get (fallback_metrics opts) ''partition_id'' = Inr (JInt (cid opts)) \<and>
         dict_get (fallback_metrics opts) ''metrics'' = Inr (JDict []) \<and>
         (\<exists>msg. dict_get (fallback_metrics opts) ''message'' = Inr (JStr msg) \<and> msg \<noteq> [])"
  using run_supernode_exit [OF assms, where w = w]
  by (auto simp: fallback_fields)

theorem C3_zero_exit_result_witness:
  "fst (run_supernode (sample_host (sample_proc [] (Some 0))) (default_options\<lparr>cid := 2\<rparr>)
          Map.empty sample_world)
     = Returns (JDict [(''kind'', JStr ''train''), (''partition_id'', JInt 2),
                       (''metrics'', JDict []),
                       (''message'', JStr ''No metrics emitted by the ClientApp.'')]) \<and>
   fst (run_supernode (sample_host (sample_proc [train_line @ [CHR 0x0A]] (Some 0)))
          default_options Map.empty sample_world)
     = Returns train_record"
proof -
  let ?p = "sample_proc [] (Some 0)"
  let ?q = "sample_proc [train_line @ [CHR 0x0A]] (Some 0)"
  have a: "popen (sample_host ?p) (supernode_cmd (default_options\<lparr>cid := 2\<rparr>)) Map.empty = Inr ?p"
    by (simp add: sample_host_def)
  have b: "exit_code ?p = Some 0" by (simp add: sample_proc_def)
  have a': "popen (sample_host ?q) (supernode_cmd default_options) Map.empty = Inr ?q"
    by (simp add: sample_host_def)
  have b': "exit_code ?q = Some 0" by (simp add: sample_proc_def)
  have s: "stdout_lines ?p = []" "stdout_lines ?q = [train_line @ [CHR 0x0A]]"
    "json_loads (sample_host ?p) = loads_model" "json_loads (sample_host ?q) = loads_model"
    by (simp_all add: sample_proc_def sample_host_def)
  have e: "stream_lines (Some []) (Some (capture loads_model)) (None :: json option) = (None, None)"
    by (simp add: stream_lines_def)
  from C3_zero_exit_result [OF a b, of sample_world]
    C3_zero_exit_result [OF a' b', of sample_world]
  show ?thesis
    by (simp add: s stream_train e fallback_metrics_def)
qed

section \<open>Properties of the Summary Extractor\<close>

lemma py_contains_find_sep: "sep \<noteq> [] \<Longrightarrow> py_contains sep s = (find_sep sep s \<noteq> None)"
  by (induction s) (auto split: option.splits)

lemma SUMMARY_TOKEN_nonempty: "SUMMARY_TOKEN \<noteq> []"
  by (simp add: SUMMARY_TOKEN_def)

text \<open>The index \<open>[1]\<close> in \<open>_capture\<close> is always in range: the guard has found the token.\<close>

lemma capture_payload:
  "capture loads line metrics =
     (case payload_of line of
        None \<Rightarrow> Inr metrics
      | Some pl \<Rightarrow>
          (case loads pl of
             Inl e \<Rightarrow> (if e = JSONDecodeError then Inr metrics else Inl e)
           | Inr parsed \<Rightarrow>
               (case dict_get parsed ''kind'' of
                  Inl e \<Rightarrow> Inl e
                | Inr k \<Rightarrow> if k = JStr ''train'' then Inr (Some parsed) else Inr metrics)))"
  by (auto simp: capture_def payload_of_def py_contains_find_sep [OF SUMMARY_TOKEN_nonempty]
      py_split1_def py_index_def Let_def split: option.splits)

lemma capture_well_formed:
  assumes "object_or_undecodable loads line"
  shows "capture loads line metrics =
           Inr (case train_summary loads line of None \<Rightarrow> metrics | Some m \<Rightarrow> Some m)"
proof (cases "payload_of line")
  case None
  then show ?thesis by (simp add: capture_payload train_summary_def)
next
  case (Some pl)
  show ?thesis
  proof (cases "loads pl")
    case (Inl e)
    with Some assms show ?thesis
      by (simp add: capture_payload train_summary_def object_or_undecodable_def)
  next
    case (Inr parsed)
    with Some assms obtain kvs where "parsed = JDict kvs"
      by (cases parsed) (simp_all add: object_or_undecodable_def)
    with Some Inr show ?thesis
      by (simp add: capture_payload train_summary_def)
  qed
qed

lemma last_train_summary_Nil: "last_train_summary loads [] = None"
  by (simp add: last_train_summary_def map_filter_simps)

lemma last_train_summary_Cons:
  "last_train_summary loads (l # ls) =
     (case last_train_summary loads ls of Some m \<Rightarrow> Some m | None \<Rightarrow> train_summary loads l)"
  by (cases "train_summary loads l")
     (auto simp: last_train_summary_def map_filter_simps Let_def)

lemma stream_loop_capture:
  assumes "\<forall>raw \<in> set raws. raw \<noteq> [] \<and> object_or_undecodable loads (py_rstrip raw)"
  shows "stream_loop (Some (capture loads)) raws metrics =
           (None, case last_train_summary loads (map py_rstrip raws) of
                    None \<Rightarrow> metrics | Some m \<Rightarrow> Some m)"
  using assms
proof (induction raws arbitrary: metrics)
  case Nil
  show ?case by (simp add: last_train_summary_Nil)
next
  case (Cons raw raws)
  then have ne: "raw \<noteq> []" and wf: "object_or_undecodable loads (py_rstrip raw)"
    and rest: "\<forall>r \<in> set raws. r \<noteq> [] \<and> object_or_undecodable loads (py_rstrip r)"
    by auto
  show ?case
    using ne
    by (simp add: Let_def capture_well_formed [OF wf] Cons.IH [OF rest] last_train_summary_Cons
        split: option.splits)
qed


lemma capture_null_line: "capture loads_model null_line m = Inl AttributeError"
  unfolding null_line_def by code_simp

lemma rstrip_null_line: "py_rstrip (null_line @ [CHR 0x0A]) = null_line"
  unfolding null_line_def by code_simp

lemma train_summary_null_line: "train_summary loads_model null_line = None"
  unfolding null_line_def by code_simp

lemma train_summary_train_line: "train_summary loads_model train_line = Some train_record"
  unfolding train_line_def train_record_def by code_simp

text \<open>
  C1, where the code departs from it.  A marker line whose payload is the JSON text
  \<open>null\<close> decodes, and \<open>_capture\<close> raises \<open>AttributeError\<close> on it; the relay of the
  standard output ends there, so a train summary on a later line is never stored,
  though it is the summary of the last line that carries one.
\<close>

theorem C1_non_object_payload_raises:
  "capture loads_model null_line (Some train_record) = Inl AttributeError \<and>
   stream_lines (Some [null_line @ [CHR 0x0A], train_line @ [CHR 0x0A]])
       (Some (capture loads_model)) None = (Some AttributeError, None) \<and>
   last_train_summary loads_model [null_line, train_line] = Some train_record"
  by (simp add: stream_lines_def rstrip_null_line capture_null_line null_line_def [symmetric]
      last_train_summary_Cons last_train_summary_Nil train_summary_train_line
      train_summary_null_line Let_def)

text \<open>
  The Summary Extractor on the lines it is written for.  When every line the relay
  reads either has no marker, or has a payload that fails to decode, or has one that
  decodes to an object, the relay ends without an exception and \<open>metrics\<close> holds the
  summary of the last line that carries one (its old value if no line does).
\<close>

theorem extractor_keeps_last_train_summary:
  assumes "\<forall>raw \<in> set raws. raw \<noteq> [] \<and> object_or_undecodable loads (py_rstrip raw)"
  shows "stream_lines (Some raws) (Some (capture loads)) metrics =
           (None, case last_train_summary loads (map py_rstrip raws) of
                    None \<Rightarrow> metrics | Some m \<Rightarrow> Some m)"
  using stream_loop_capture [OF assms] by (simp add: stream_lines_def)

lemma sample_lines_ok:
  "object_or_undecodable loads_model train_line"
  "object_or_undecodable loads_model eval_line"
  "object_or_undecodable loads_model malformed_line"
  unfolding train_line_def eval_line_def malformed_line_def by code_simp+

lemma sample_lines_summaries:
  "train_summary loads_model eval_line = None"
  "train_summary loads_model malformed_line = None"
  unfolding eval_line_def malformed_line_def by code_simp+

theorem extractor_keeps_last_train_summary_witness:
  "stream_lines (Some [train_line, eval_line, malformed_line]) (Some (capture loads_model)) None
     = (None, Some train_record)"
proof -
  have r: "py_rstrip train_line = train_line" "py_rstrip eval_line = eval_line"
    "py_rstrip malformed_line = malformed_line"
    unfolding train_line_def eval_line_def malformed_line_def by code_simp+
  have ne: "train_line \<noteq> []" "eval_line \<noteq> []" "malformed_line \<noteq> []"
    by (simp_all add: train_line_def eval_line_def malformed_line_def)
  have h: "\<forall>raw \<in> set [train_line, eval_line, malformed_line].
             raw \<noteq> [] \<and> object_or_undecodable loads_model (py_rstrip raw)"
    by (simp add: r ne sample_lines_ok)
  from extractor_keeps_last_train_summary [OF h, of None] show ?thesis
    by (simp add: r last_train_summary_Cons last_train_summary_Nil sample_lines_summaries
        train_summary_train_line)
qed

section \<open>Properties of the Environment Builder\<close>

lemma os_mkdir_is_dir: "os_mkdir f p = Inr f' \<Longrightarrow> is_dir f' p"
  by (auto simp: os_mkdir_def is_dir_def node_at_def split: if_splits option.splits node.splits)

lemma mkdir_parents_is_dir: "mkdir_parents f p = Inr f' \<Longrightarrow> is_dir f' p"
  by (subst (asm) mkdir_parents.simps)
     (auto split: sum.splits if_splits dest: os_mkdir_is_dir)

lemma mkdir_parents_existing: "is_dir f p \<Longrightarrow> mkdir_parents f p = Inr f"
  by (subst mkdir_parents.simps) (simp add: os_mkdir_def is_dir_def)

text \<open>
  C8.  When \<open>_prepare_environment\<close> has returned an environment and a directory, a
  second call with the same state root and node id, in the state the first one left,
  returns the same environment and the same directory and leaves the file system as
  it is (the directory is there, and \<open>mkdir\<close> with \<open>exist_ok\<close> accepts that).  The
  environment returned is \<open>os.environ\<close> with \<open>FLWR_HOME\<close> set to the path of the
  directory; every other variable is as in \<open>os.environ\<close>.
\<close>

theorem C8_prepare_environment_twice:
  assumes "prepare_environment h state_root c w = (Returns (env, home), w1)"
  shows "prepare_environment h state_root c w1 = (Returns (env, home), log_event (Mkdir home) w1) \<and>
         fs (log_event (Mkdir home) w1) = fs w1 \<and>
         is_dir (fs w1) home \<and>
         env = (environ w)(''FLWR_HOME'' \<mapsto> str_path home) \<and>
         (\<forall>v. v \<noteq> ''FLWR_HOME'' \<longrightarrow> env v = environ w v)"
proof (cases "expanduser (pw_dir h) (environ w) (Path state_root)")
  case (Inl e)
  with assms show ?thesis by (simp add: prepare_environment_def)
next
  case (Inr p)
  let ?home = "joinpath p (''cid-'' @ str_int c)"
  show ?thesis
  proof (cases "mkdir_parents (fs w) ?home")
    case (Inl e)
    with Inr assms show ?thesis
      by (simp add: prepare_environment_def Let_def log_event_def)
  next
    case f: (Inr f)
    from Inr f assms have home: "home = ?home"
      and env: "env = (environ w)(''FLWR_HOME'' \<mapsto> str_path ?home)"
      and w1: "w1 = (log_event (Mkdir ?home) w)\<lparr>fs := f\<rparr>"
      by (auto simp: prepare_environment_def Let_def log_event_def)
    from f have d: "is_dir f ?home" by (rule mkdir_parents_is_dir)
    then have again: "mkdir_parents f ?home = Inr f" by (rule mkdir_parents_existing)
    have "prepare_environment h state_root c w1 = (Returns (env, home), log_event (Mkdir home) w1)"
      using Inr again by (simp add: prepare_environment_def Let_def log_event_def w1 home env)
    with d show ?thesis by (simp add: w1 home env log_event_def)
  qed
qed

lemma sample_state_path: "Path DEFAULT_STATE_DIR = \<lparr>root = ''/'', parts = [''tmp'', ''fedmed-flwr-node'']\<rparr>"
  unfolding DEFAULT_STATE_DIR_def by code_simp

section \<open>What the supervisor and the sweep leave alone\<close>

lemma run_supernode_frame:
  "fs (snd (run_supernode h opts env w)) = fs w \<and>
   environ (snd (run_supernode h opts env w)) = environ w \<and>
   file_calls (trace (snd (run_supernode h opts env w))) = file_calls (trace w)"
proof (cases "popen h (supernode_cmd opts) env")
  case (Inl e)
  then show ?thesis by (simp add: run_supernode_def Let_def)
next
  case (Inr p)
  then show ?thesis
    by (cases "exit_code p")
       (auto simp: run_supernode_def Let_def proc_wait_def log_event_def register_child_def
          set_status_def bind_def file_calls_def)
qed

lemma try_finally_cleanup:
  "try_finally (r, w) cleanup_children =
     (if r = Blocks then (Blocks, w) else (r, snd (cleanup_children w)))"
  using cleanup_children_frame [of w]
  by (cases r; cases "cleanup_children w") (auto simp: try_finally_def)

lemma prepare_environment_Returns:
  assumes "prepare_environment h state_root c w = (Returns (env, home), w1)"
  shows "file_calls (trace w1) = file_calls (trace w) @ [Mkdir home] \<and>
         environ w1 = environ w \<and> is_dir (fs w1) home \<and>
         procs w1 = procs w \<and> CHILDREN w1 = CHILDREN w"
  using assms
  by (auto simp: prepare_environment_def Let_def log_event_def file_calls_def
      split: sum.splits dest: mkdir_parents_is_dir)

lemma prepare_environment_not_Returns:
  "fst (prepare_environment h state_root c w) \<noteq> Blocks \<and>
   (\<forall>e. fst (prepare_environment h state_root c w) = Raises e \<longrightarrow>
      fs (snd (prepare_environment h state_root c w)) = fs w \<and>
      (\<forall>p x. WriteText p x \<in> set (trace (snd (prepare_environment h state_root c w)))
         \<longrightarrow> WriteText p x \<in> set (trace w)))"
  by (auto simp: prepare_environment_def Let_def log_event_def split: sum.splits)

section \<open>Properties of the plugin\<close>

lemma plugin_main_run:
  assumes "\<not> json opts" and "0 \<le> cid opts" and "cid opts < total_clients opts"
  shows "plugin_main h opts outputdir w =
     bind (prepare_environment h (state_dir opts) (cid opts) (handle_signals w)) (\<lambda>(env, flwr_home) w1.
       bind (try_finally (run_supernode h opts env w1) cleanup_children) (\<lambda>summary w2.
         (let metrics_path = joinpath outputdir (metrics_file opts) in
          bind (write_text metrics_path (json_dumps h summary) w2) (\<lambda>_ w3.
            if \<not> keep_state opts then (Returns (), rmtree flwr_home w3)
            else (Returns (), w3)))))"
  using assms by (simp add: plugin_main_def Let_def)

lemma plugin_main_invalid:
  assumes "\<not> json opts" and "\<not> (0 \<le> cid opts \<and> cid opts < total_clients opts)"
  shows "plugin_main h opts outputdir w =
     (Raises (ValueError (if total_clients opts \<le> 0 then ''total-clients must be >= 1''
                          else ''cid must be within [0, total-clients)'')), handle_signals w)"
  using assms by (auto simp: plugin_main_def Let_def)

lemma plugin_main_after_run:
  assumes "\<not> json opts" and "0 \<le> cid opts" and "cid opts < total_clients opts"
    and "prepare_environment h (state_dir opts) (cid opts) (handle_signals w) = (Returns (env, home), w1)"
    and "run_supernode h opts env w1 = (r, w2)"
  shows "plugin_main h opts outputdir w =
     (case r of
        Blocks \<Rightarrow> (Blocks, w2)
      | Raises e \<Rightarrow> (Raises e, snd (cleanup_children w2))
      | Returns summary \<Rightarrow>
          bind (write_text (joinpath outputdir (metrics_file opts)) (json_dumps h summary)
                  (snd (cleanup_children w2))) (\<lambda>_ w3.
            if \<not> keep_state opts then (Returns (), rmtree home w3) else (Returns (), w3)))"
  by (cases r)
     (simp_all add: plugin_main_run [OF assms(1-3)] assms(4,5) bind_def try_finally_cleanup Let_def)


lemma WriteText_file_calls: "WriteText p c \<in> set (file_calls t) \<longleftrightarrow> WriteText p c \<in> set t"
  by (auto simp: file_calls_def)

lemma write_text_Returns:
  assumes "write_text p c w = (Returns u, w')"
  shows "fs w' = (fs w)(p \<mapsto> File c) \<and> node_at (fs w) p \<noteq> Some Dir \<and>
         trace w' = trace w @ [WriteText p c]"
  using assms
  by (auto simp: write_text_def fs_write_text_def log_event_def Let_def
      split: if_splits option.splits node.splits)

lemma write_text_not_Blocks: "fst (write_text p c w) \<noteq> Blocks"
  by (auto simp: write_text_def Let_def split: sum.splits)

lemma plugin_main_write_only_after_return:
  assumes "WriteText p c \<in> set (trace (snd (plugin_main h opts outputdir w)))"
    and "WriteText p c \<notin> set (trace w)"
  shows "\<exists>env home w1 summary w2.
           prepare_environment h (state_dir opts) (cid opts) (handle_signals w) = (Returns (env, home), w1) \<and>
           run_supernode h opts env w1 = (Returns summary, w2) \<and>
           p = joinpath outputdir (metrics_file opts) \<and> c = json_dumps h summary"
proof (cases "json opts")
  case True
  with assms show ?thesis
    by (simp add: plugin_main_def emit_plugin_json_def log_event_def handle_signals_def Let_def)
next
  case nj: False
  show ?thesis
  proof (cases "0 \<le> cid opts \<and> cid opts < total_clients opts")
    case False
    with nj assms show ?thesis by (simp add: plugin_main_invalid handle_signals_def)
  next
    case True
    then have v: "0 \<le> cid opts" "cid opts < total_clients opts" by auto
    let ?w0 = "handle_signals w"
    have t0: "trace ?w0 = trace w" by (simp add: handle_signals_def)
    obtain r0 w1 where pe: "prepare_environment h (state_dir opts) (cid opts) ?w0 = (r0, w1)"
      by (cases "prepare_environment h (state_dir opts) (cid opts) ?w0")
    show ?thesis
    proof (cases r0)
      case Blocks
      with pe prepare_environment_not_Returns [of h "state_dir opts" "cid opts" ?w0]
      show ?thesis by simp
    next
      case (Raises e)
      with pe have "plugin_main h opts outputdir w = (Raises e, w1)"
        by (simp add: plugin_main_run [OF nj v] bind_def)
      with assms pe Raises t0
        prepare_environment_not_Returns [of h "state_dir opts" "cid opts" ?w0]
      show ?thesis by auto
    next
      case (Returns eh)
      obtain env home where eh: "eh = (env, home)" by (cases eh)
      note pe' = pe [unfolded Returns eh]
      from prepare_environment_Returns [OF pe']
      have fc1: "file_calls (trace w1) = file_calls (trace w) @ [Mkdir home]" by (simp add: t0)
      obtain r w2 where run: "run_supernode h opts env w1 = (r, w2)"
        by (cases "run_supernode h opts env w1")
      from run_supernode_frame [of h opts env w1] run
      have fc2: "file_calls (trace w2) = file_calls (trace w1)" by simp
      let ?w2 = "snd (cleanup_children w2)"
      have fc3: "file_calls (trace ?w2) = file_calls (trace w2)"
        by (simp add: cleanup_children_frame)
      note pm = plugin_main_after_run [OF nj v pe' run, of outputdir]
      have old: "WriteText p c \<notin> set (file_calls (trace w) @ [Mkdir home])"
        using assms(2) by (simp add: WriteText_file_calls)
      show ?thesis
      proof (cases r)
        case Blocks
        with pm have "snd (plugin_main h opts outputdir w) = w2" by simp
        with assms(1) have "WriteText p c \<in> set (file_calls (trace w2))"
          by (simp add: WriteText_file_calls)
        with old fc1 fc2 show ?thesis by simp
      next
        case (Raises e)
        with pm have "snd (plugin_main h opts outputdir w) = ?w2" by simp
        with assms(1) have "WriteText p c \<in> set (file_calls (trace ?w2))"
          by (simp add: WriteText_file_calls)
        with old fc1 fc2 fc3 show ?thesis by simp
      next
        case (Returns summary)
        let ?mp = "joinpath outputdir (metrics_file opts)"
        let ?c = "json_dumps h summary"
        have "WriteText p c \<in> set (trace ?w2) \<or> (p = ?mp \<and> c = ?c)"
          using assms(1) pm Returns
          by (auto simp: bind_def write_text_def rmtree_def log_event_def Let_def
              split: sum.splits if_splits)
        moreover have "WriteText p c \<notin> set (trace ?w2)"
          using old fc1 fc2 fc3 WriteText_file_calls [of p c "trace ?w2"] by simp
        ultimately show ?thesis using pe' run Returns by blast
      qed
    qed
  qed
qed

text \<open>
  C7.  Outside the metadata mode (\<open>--json\<close>): when \<open>0 \<le> cid < total_clients\<close> the
  checks of \<open>_plugin_main\<close> pass, the run goes on to the Environment Builder, and
  \<open>NodeConfig\<close> is built from the options as they are; for every other pair
  \<open>_plugin_main\<close> raises \<open>ValueError\<close> with only the signal handlers installed:
  no call has been made, no process object exists that did not before, the registry
  and the file system are as they were.
\<close>

theorem C7_node_id_validation:
  assumes "\<not> json opts"
  shows "(0 \<le> cid opts \<and> cid opts < total_clients opts \<longrightarrow>
            1 \<le> total_clients opts \<and>
            build_node_config opts =
              \<lparr> nc_cid = cid opts, nc_total_clients = total_clients opts,
                nc_data_seed = data_seed opts \<rparr> \<and>
            plugin_main h opts outputdir w =
              bind (prepare_environment h (state_dir opts) (cid opts) (handle_signals w))
                (\<lambda>(env, flwr_home) w1.
                   bind (try_finally (run_supernode h opts env w1) cleanup_children) (\<lambda>summary w2.
                     (let metrics_path = joinpath outputdir (metrics_file opts) in
                      bind (write_text metrics_path (json_dumps h summary) w2) (\<lambda>_ w3.
                        if \<not> keep_state opts then (Returns (), rmtree flwr_home w3)
                        else (Returns (), w3)))))) \<and>
         (\<not> (0 \<le> cid opts \<and> cid opts < total_clients opts) \<longrightarrow>
            (\<exists>msg. plugin_main h opts outputdir w = (Raises (ValueError msg), handle_signals w)) \<and>
            trace (handle_signals w) = trace w \<and>
            procs (handle_signals w) = procs w \<and>
            next_handle (handle_signals w) = next_handle w \<and>
            CHILDREN (handle_signals w) = CHILDREN w \<and>
            fs (handle_signals w) = fs w)"
proof (intro conjI impI)
  assume v: "0 \<le> cid opts \<and> cid opts < total_clients opts"
  then show "1 \<le> total_clients opts" by simp
  show "build_node_config opts =
      \<lparr> nc_cid = cid opts, nc_total_clients = total_clients opts, nc_data_seed = data_seed opts \<rparr>"
    by (simp add: build_node_config_def)
  from v show "plugin_main h opts outputdir w =
      bind (prepare_environment h (state_dir opts) (cid opts) (handle_signals w))
        (\<lambda>(env, flwr_home) w1.
           bind (try_finally (run_supernode h opts env w1) cleanup_children) (\<lambda>summary w2.
             (let metrics_path = joinpath outputdir (metrics_file opts) in
              bind (write_text metrics_path (json_dumps h summary) w2) (\<lambda>_ w3.
                if \<not> keep_state opts then (Returns (), rmtree flwr_home w3)
                else (Returns (), w3)))))"
    using plugin_main_run [OF assms, of h outputdir w] by simp
next
  assume "\<not> (0 \<le> cid opts \<and> cid opts < total_clients opts)"
  from plugin_main_invalid [OF assms this]
  show "\<exists>msg. plugin_main h opts outputdir w = (Raises (ValueError msg), handle_signals w)"
    by blast
qed (simp_all add: handle_signals_def)

text \<open>
  C9.  When the checks have passed, the Environment Builder has returned and
  \<open>_run_supernode\<close> raises, \<open>_plugin_main\<close> raises the same exception after the sweep;
  the file system is as the Environment Builder left it, and the only call on the
  file system is its \<open>mkdir\<close>.  In every run, a \<open>write_text\<close> that was not made
  before is made only after \<open>_run_supernode\<close> has returned a record, with that
  record serialised, at the metrics path.
\<close>

theorem C9_no_result_file_on_failure:
  "(\<not> json opts \<and> 0 \<le> cid opts \<and> cid opts < total_clients opts \<and>
    prepare_environment h (state_dir opts) (cid opts) (handle_signals w) = (Returns (env, home), w1) \<and>
    run_supernode h opts env w1 = (Raises e, w2) \<longrightarrow>
      fst (plugin_main h opts outputdir w) = Raises e \<and>
      fs (snd (plugin_main h opts outputdir w)) = fs w1 \<and>
      file_calls (trace (snd (plugin_main h opts outputdir w))) = file_calls (trace w) @ [Mkdir home]) \<and>
   (WriteText p c \<in> set (trace (snd (plugin_main h opts outputdir w))) \<and>
    WriteText p c \<notin> set (trace w) \<longrightarrow>
      (\<exists>env home w1 summary w2.
         prepare_environment h (state_dir opts) (cid opts) (handle_signals w) = (Returns (env, home), w1) \<and>
         run_supernode h opts env w1 = (Returns summary, w2) \<and>
         p = joinpath outputdir (metrics_file opts) \<and> c = json_dumps h summary))"
proof (intro conjI impI)
  assume a: "\<not> json opts \<and> 0 \<le> cid opts \<and> cid opts < total_clients opts \<and>
    prepare_environment h (state_dir opts) (cid opts) (handle_signals w) = (Returns (env, home), w1) \<and>
    run_supernode h opts env w1 = (Raises e, w2)"
  then have nj: "\<not> json opts" and v: "0 \<le> cid opts" "cid opts < total_clients opts"
    and pe: "prepare_environment h (state_dir opts) (cid opts) (handle_signals w) = (Returns (env, home), w1)"
    and run: "run_supernode h opts env w1 = (Raises e, w2)" by auto
  from plugin_main_after_run [OF nj v pe run, of outputdir]
  have pm: "plugin_main h opts outputdir w = (Raises e, snd (cleanup_children w2))" by simp
  from run_supernode_frame [of h opts env w1] run
  have f2: "fs w2 = fs w1" "file_calls (trace w2) = file_calls (trace w1)" by simp_all
  from prepare_environment_Returns [OF pe]
  have f1: "file_calls (trace w1) = file_calls (trace w) @ [Mkdir home]"
    by (simp add: handle_signals_def)
  show "fst (plugin_main h opts outputdir w) = Raises e" by (simp add: pm)
  show "fs (snd (plugin_main h opts outputdir w)) = fs w1"
    by (simp add: pm cleanup_children_frame f2)
  show "file_calls (trace (snd (plugin_main h opts outputdir w))) = file_calls (trace w) @ [Mkdir home]"
    by (simp add: pm cleanup_children_frame f2 f1)
next
  assume "WriteText p c \<in> set (trace (snd (plugin_main h opts outputdir w))) \<and>
    WriteText p c \<notin> set (trace w)"
  then show "\<exists>env home w1 summary w2.
         prepare_environment h (state_dir opts) (cid opts) (handle_signals w) = (Returns (env, home), w1) \<and>
         run_supernode h opts env w1 = (Returns summary, w2) \<and>
         p = joinpath outputdir (metrics_file opts) \<and> c = json_dumps h summary"
    using plugin_main_write_only_after_return [of p c h opts outputdir w] by blast
qed

text \<open>
  C10.  When \<open>_plugin_main\<close> returns from a run (not the metadata mode), the
  Environment Builder has made the directory of the node and \<open>_run_supernode\<close> has
  returned a record.  Without \<open>keep_state\<close> the calls on the file system are, in this
  order, the \<open>mkdir\<close>, the \<open>write_text\<close> of the record and the \<open>rmtree\<close> of the
  directory, after which nothing is left at or below the directory and all else is as
  the write left it.  With \<open>keep_state\<close> there is no \<open>rmtree\<close>: the file system is as
  the write left it and the directory is still there.
\<close>

theorem C10_state_dir_teardown:
  assumes "\<not> json opts"
    and "plugin_main h opts outputdir w = (Returns (), w')"
  shows "\<exists>env home w1 summary w2.
           prepare_environment h (state_dir opts) (cid opts) (handle_signals w) = (Returns (env, home), w1) \<and>
           run_supernode h opts env w1 = (Returns summary, w2) \<and>
           (if keep_state opts then
              file_calls (trace w') = file_calls (trace w) @
                [Mkdir home, WriteText (joinpath outputdir (metrics_file opts)) (json_dumps h summary)] \<and>
              fs w' = (fs w1)(joinpath outputdir (metrics_file opts) \<mapsto> File (json_dumps h summary)) \<and>
              is_dir (fs w') home
            else
              file_calls (trace w') = file_calls (trace w) @
                [Mkdir home, WriteText (joinpath outputdir (metrics_file opts)) (json_dumps h summary),
                 Rmtree home] \<and>
              (\<forall>q. fs w' q =
                 (if below home q then None
                  else ((fs w1)(joinpath outputdir (metrics_file opts) \<mapsto> File (json_dumps h summary))) q)))"
proof -
  let ?w0 = "handle_signals w"
  let ?mp = "joinpath outputdir (metrics_file opts)"
  have v: "0 \<le> cid opts" "cid opts < total_clients opts"
    using assms plugin_main_invalid [OF assms(1), of h outputdir w] by (auto split: if_splits)
  obtain r0 w1 where pe: "prepare_environment h (state_dir opts) (cid opts) ?w0 = (r0, w1)"
    by (cases "prepare_environment h (state_dir opts) (cid opts) ?w0")
  from assms(2) pe obtain env home where r0: "r0 = Returns (env, home)"
    by (cases r0) (auto simp: plugin_main_run [OF assms(1) v] bind_def)
  note pe' = pe [unfolded r0]
  obtain r w2 where run: "run_supernode h opts env w1 = (r, w2)"
    by (cases "run_supernode h opts env w1")
  note pm = plugin_main_after_run [OF assms(1) v pe' run, of outputdir]
  from assms(2) pm obtain summary where r: "r = Returns summary" by (cases r) auto
  let ?c = "json_dumps h summary"
  let ?w2 = "snd (cleanup_children w2)"
  obtain r3 w3 where wt: "write_text ?mp ?c ?w2 = (r3, w3)" by (cases "write_text ?mp ?c ?w2")
  from assms(2) pm r wt have r3: "r3 = Returns ()" by (cases r3) (auto simp: bind_def)
  from assms(2) pm r wt r3
  have w': "w' = (if \<not> keep_state opts then rmtree home w3 else w3)"
    by (auto simp: bind_def split: if_splits)
  from prepare_environment_Returns [OF pe']
  have f1: "file_calls (trace w1) = file_calls (trace w) @ [Mkdir home]" and d1: "is_dir (fs w1) home"
    by (simp_all add: handle_signals_def)
  from run_supernode_frame [of h opts env w1] run
  have f2: "fs w2 = fs w1" "file_calls (trace w2) = file_calls (trace w1)" by simp_all
  have f2': "fs ?w2 = fs w1" "file_calls (trace ?w2) = file_calls (trace w) @ [Mkdir home]"
    by (simp_all add: cleanup_children_frame f1 f2)
  from write_text_Returns [OF wt [unfolded r3]] f2'
  have f3: "fs w3 = (fs w1)(?mp \<mapsto> File ?c)" and nd: "node_at (fs w1) ?mp \<noteq> Some Dir"
    and t3: "file_calls (trace w3) = file_calls (trace w) @ [Mkdir home, WriteText ?mp ?c]"
    by (simp_all add: file_calls_def)
  from d1 nd have "?mp \<noteq> home" by (auto simp: is_dir_def)
  with d1 have d3: "is_dir (fs w3) home"
    by (auto simp: f3 is_dir_def node_at_def split: if_splits)
  show ?thesis
  proof (cases "keep_state opts")
    case True
    with w' have "w' = w3" by simp
    with pe' run r True f3 t3 d3 show ?thesis by auto
  next
    case False
    with w' have "w' = rmtree home w3" by simp
    then have "file_calls (trace w') = file_calls (trace w) @ [Mkdir home, WriteText ?mp ?c, Rmtree home]"
      and "\<forall>q. fs w' q = (if below home q then None else ((fs w1)(?mp \<mapsto> File ?c)) q)"
      using t3 d3 f3 by (simp_all add: rmtree_def log_event_def Let_def file_calls_def fs_rmtree_def)
    with pe' run r False show ?thesis by auto
  qed
qed

section \<open>The sample runs, evaluated\<close>

lemma sample_mkdir: "mkdir_parents (fs sample_world) sample_home = Inr sample_fs1"
  apply (subst mkdir_parents.simps)
  apply (subst mkdir_parents.simps)
  apply (simp add: os_mkdir_def node_at_def parent_def is_dir_def sample_world_def
      sample_home_def sample_fs1_def)
  done

lemma str_int_0: "str_int 0 = ''0''"
  by code_simp

lemma cid0_path: "Path ''cid-0'' = \<lparr>root = [], parts = [''cid-0'']\<rparr>"
  by code_simp

lemma sample_home_path:
  "joinpath (Path DEFAULT_STATE_DIR) (''cid-'' @ str_int 0) = sample_home"
  by (simp add: joinpath_def str_int_0 cid0_path sample_state_path sample_home_def)

lemma sample_home_str: "str_path sample_home = ''/tmp/fedmed-flwr-node/cid-0''"
  by (simp add: str_path_def sample_home_def)

lemma sample_prepare:
  "prepare_environment (sample_host p) (state_dir default_options) (cid default_options)
       (handle_signals sample_world)
     = (Returns (sample_env, sample_home),
        (log_event (Mkdir sample_home) (handle_signals sample_world))\<lparr>fs := sample_fs1\<rparr>)"
proof -
  have e: "expanduser (pw_dir (sample_host p)) (environ (handle_signals sample_world))
             (Path DEFAULT_STATE_DIR) = Inr (Path DEFAULT_STATE_DIR)"
    by (simp add: expanduser_def sample_state_path)
  have f: "fs (log_event (Mkdir sample_home) (handle_signals sample_world)) = fs sample_world"
    by (simp add: log_event_def handle_signals_def)
  have env: "(environ (handle_signals sample_world))(''FLWR_HOME'' \<mapsto> ''/tmp/fedmed-flwr-node/cid-0'')
      = sample_env"
    by (simp add: handle_signals_def sample_world_def sample_env_def)
  show ?thesis
    unfolding prepare_environment_def
    by (simp only: default_options_def options.simps e sample_home_path f Let_def sum.case
        sample_mkdir sample_home_str env)
qed

lemma sample_metrics_path_eq:
  "joinpath sample_out (metrics_file default_options) = sample_metrics_path"
proof -
  have "Path DEFAULT_METRICS_FILE = \<lparr>root = [], parts = [''client_metrics.json'']\<rparr>"
    unfolding DEFAULT_METRICS_FILE_def by code_simp
  then show ?thesis
    by (simp add: joinpath_def default_options_def sample_out_def sample_metrics_path_def)
qed

lemma sample_write:
  "fs_write_text sample_fs1 sample_metrics_path c = Inr (sample_fs1(sample_metrics_path \<mapsto> File c))"
  by (simp add: fs_write_text_def node_at_def parent_def sample_fs1_def sample_world_def
      sample_home_def sample_metrics_path_def)

lemma plugin_main_returns:
  assumes "\<not> json opts" and "0 \<le> cid opts" and "cid opts < total_clients opts"
    and "prepare_environment h (state_dir opts) (cid opts) (handle_signals w) = (Returns (env, home), w1)"
    and "fst (run_supernode h opts env w1) = Returns summary"
    and "fs_write_text (fs w1) (joinpath outputdir (metrics_file opts)) (json_dumps h summary) = Inr f"
  shows "fst (plugin_main h opts outputdir w) = Returns ()"
proof -
  obtain w2 where run: "run_supernode h opts env w1 = (Returns summary, w2)"
    using assms(5) by (cases "run_supernode h opts env w1") simp
  from run_supernode_frame [of h opts env w1] run have "fs w2 = fs w1" by simp
  then have "fs (snd (cleanup_children w2)) = fs w1" by (simp add: cleanup_children_frame)
  with assms(6) show ?thesis
    by (simp add: plugin_main_after_run [OF assms(1-4) run] bind_def write_text_def
        log_event_def Let_def)
qed

lemma default_options_valid:
  "\<not> json default_options" "0 \<le> cid default_options"
  "cid default_options < total_clients default_options"
  by (simp_all add: default_options_def DEFAULT_TOTAL_CLIENTS_def)

lemma sample_run_train:
  "fst (run_supernode (sample_host (sample_proc [train_line @ [CHR 0x0A]] (Some 0))) opts env w)
     = Returns train_record"
proof -
  let ?p = "sample_proc [train_line @ [CHR 0x0A]] (Some 0)"
  have "popen (sample_host ?p) (supernode_cmd opts) env = Inr ?p" by (simp add: sample_host_def)
  moreover have "exit_code ?p = Some 0" by (simp add: sample_proc_def)
  ultimately show ?thesis
    using run_supernode_exit [of "sample_host ?p" opts env ?p 0 w] stream_train
    by (simp add: sample_host_def sample_proc_def)
qed

lemma sample_run_137:
  "fst (run_supernode (sample_host (sample_proc [train_line @ [CHR 0x0A]] (Some 137))) opts env w)
     = Raises (RuntimeError ''flower-supernode exited with 137'')"
proof -
  let ?p = "sample_proc [train_line @ [CHR 0x0A]] (Some 137)"
  have "popen (sample_host ?p) (supernode_cmd opts) env = Inr ?p" by (simp add: sample_host_def)
  moreover have "exit_code ?p = Some 137" by (simp add: sample_proc_def)
  ultimately show ?thesis
    using run_supernode_exit [of "sample_host ?p" opts env ?p 137 w]
    by (simp add: str_int_137)
qed

lemma sample_plugin_main_returns:
  "keep_state opts = k \<Longrightarrow> opts = default_options\<lparr>keep_state := k\<rparr> \<Longrightarrow>
   fst (plugin_main (sample_host (sample_proc [train_line @ [CHR 0x0A]] (Some 0))) opts
          sample_out sample_world) = Returns ()"
proof -
  assume o: "opts = default_options\<lparr>keep_state := k\<rparr>"
  let ?H = "sample_host (sample_proc [train_line @ [CHR 0x0A]] (Some 0))"
  have v: "\<not> json opts" "0 \<le> cid opts" "cid opts < total_clients opts"
    using default_options_valid by (simp_all add: o)
  have pe: "prepare_environment ?H (state_dir opts) (cid opts) (handle_signals sample_world)
     = (Returns (sample_env, sample_home),
        (log_event (Mkdir sample_home) (handle_signals sample_world))\<lparr>fs := sample_fs1\<rparr>)"
    using sample_prepare [of "sample_proc [train_line @ [CHR 0x0A]] (Some 0)"] by (simp add: o)
  have mp: "joinpath sample_out (metrics_file opts) = sample_metrics_path"
    using sample_metrics_path_eq by (simp add: o)
  show ?thesis
    by (rule plugin_main_returns [OF v pe sample_run_train]) (simp add: mp sample_write)
qed

theorem C8_prepare_environment_twice_witness:
  "prepare_environment (sample_host (sample_proc [] (Some 0))) DEFAULT_STATE_DIR 0 sample_world
     = (Returns (sample_env, sample_home),
        snd (prepare_environment (sample_host (sample_proc [] (Some 0))) DEFAULT_STATE_DIR 0 sample_world)) \<and>
   prepare_environment (sample_host (sample_proc [] (Some 0))) DEFAULT_STATE_DIR 0
     (snd (prepare_environment (sample_host (sample_proc [] (Some 0))) DEFAULT_STATE_DIR 0 sample_world))
     = (Returns (sample_env, sample_home),
        log_event (Mkdir sample_home)
          (snd (prepare_environment (sample_host (sample_proc [] (Some 0))) DEFAULT_STATE_DIR 0 sample_world))) \<and>
   sample_env ''FLWR_HOME'' = Some ''/tmp/fedmed-flwr-node/cid-0'' \<and>
   sample_env ''HOME'' = environ sample_world ''HOME''"
proof -
  let ?H = "sample_host (sample_proc [] (Some 0))"
  have e: "expanduser (pw_dir ?H) (environ sample_world) (Path DEFAULT_STATE_DIR)
      = Inr (Path DEFAULT_STATE_DIR)"
    by (simp add: expanduser_def sample_state_path)
  have f: "fs (log_event (Mkdir sample_home) sample_world) = fs sample_world"
    by (simp add: log_event_def)
  have env: "(environ sample_world)(''FLWR_HOME'' \<mapsto> ''/tmp/fedmed-flwr-node/cid-0'') = sample_env"
    by (simp add: sample_world_def sample_env_def)
  have first: "prepare_environment ?H DEFAULT_STATE_DIR 0 sample_world
     = (Returns (sample_env, sample_home),
        snd (prepare_environment ?H DEFAULT_STATE_DIR 0 sample_world))"
    unfolding prepare_environment_def
    by (simp only: e sample_home_path f Let_def sum.case sample_mkdir sample_home_str env snd_conv)
  note second = C8_prepare_environment_twice [OF first, THEN conjunct1]
  have m: "sample_env ''FLWR_HOME'' = Some ''/tmp/fedmed-flwr-node/cid-0''"
    "sample_env ''HOME'' = environ sample_world ''HOME''"
    by (simp_all add: sample_env_def sample_world_def)
  show ?thesis by (intro conjI first second m)
qed

theorem C7_node_id_validation_witness:
  "fst (plugin_main (sample_host (sample_proc [train_line @ [CHR 0x0A]] (Some 0))) default_options
          sample_out sample_world) = Returns () \<and>
   1 \<le> total_clients default_options \<and>
   (\<exists>msg. plugin_main (sample_host (sample_proc [] (Some 0))) (default_options\<lparr>cid := 3\<rparr>)
             sample_out sample_world = (Raises (ValueError msg), handle_signals sample_world)) \<and>
   trace (handle_signals sample_world) = []"
proof -
  have nj: "\<not> json (default_options\<lparr>cid := 3\<rparr>)" by (simp add: default_options_def)
  have bad: "\<not> (0 \<le> cid (default_options\<lparr>cid := 3\<rparr>) \<and>
      cid (default_options\<lparr>cid := 3\<rparr>) < total_clients (default_options\<lparr>cid := 3\<rparr>))"
    by (simp add: default_options_def DEFAULT_TOTAL_CLIENTS_def)
  have ok: "fst (plugin_main (sample_host (sample_proc [train_line @ [CHR 0x0A]] (Some 0)))
      default_options sample_out sample_world) = Returns ()"
    using sample_plugin_main_returns [of default_options False] by (simp add: default_options_def)
  from C7_node_id_validation [OF nj, of "sample_host (sample_proc [] (Some 0))" sample_out sample_world]
    C7_node_id_validation [OF default_options_valid(1),
      of "sample_host (sample_proc [train_line @ [CHR 0x0A]] (Some 0))" sample_out sample_world]
    bad default_options_valid ok
  show ?thesis by (simp add: sample_world_def)
qed

theorem C9_no_result_file_on_failure_witness:
  "fst (plugin_main (sample_host (sample_proc [train_line @ [CHR 0x0A]] (Some 137))) default_options
          sample_out sample_world) = Raises (RuntimeError ''flower-supernode exited with 137'') \<and>
   fs (snd (plugin_main (sample_host (sample_proc [train_line @ [CHR 0x0A]] (Some 137)))
          default_options sample_out sample_world)) sample_metrics_path = None \<and>
   file_calls (trace (snd (plugin_main (sample_host (sample_proc [train_line @ [CHR 0x0A]] (Some 137)))
          default_options sample_out sample_world))) = [Mkdir sample_home]"
proof -
  let ?H = "sample_host (sample_proc [train_line @ [CHR 0x0A]] (Some 137))"
  let ?w1 = "(log_event (Mkdir sample_home) (handle_signals sample_world))\<lparr>fs := sample_fs1\<rparr>"
  have pe: "prepare_environment ?H (state_dir default_options) (cid default_options)
      (handle_signals sample_world) = (Returns (sample_env, sample_home), ?w1)"
    by (rule sample_prepare)
  have run: "run_supernode ?H default_options sample_env ?w1
      = (Raises (RuntimeError ''flower-supernode exited with 137''),
         snd (run_supernode ?H default_options sample_env ?w1))"
    using sample_run_137 [of default_options sample_env ?w1]
    by (cases "run_supernode ?H default_options sample_env ?w1") simp
  have none: "sample_fs1 sample_metrics_path = None"
    by (simp add: sample_fs1_def sample_world_def sample_home_def sample_metrics_path_def)
  from C9_no_result_file_on_failure [of default_options ?H sample_world sample_env sample_home
      ?w1 "RuntimeError ''flower-supernode exited with 137''"
      "snd (run_supernode ?H default_options sample_env ?w1)" sample_out]
    default_options_valid pe run
  show ?thesis by (simp add: none sample_world_def file_calls_def)
qed

theorem C10_state_dir_teardown_witness:
  "fst (plugin_main (sample_host (sample_proc [train_line @ [CHR 0x0A]] (Some 0))) default_options
          sample_out sample_world) = Returns () \<and>
   file_calls (trace (snd (plugin_main (sample_host (sample_proc [train_line @ [CHR 0x0A]] (Some 0)))
          default_options sample_out sample_world)))
     = [Mkdir sample_home, WriteText sample_metrics_path ''{}'', Rmtree sample_home] \<and>
   fs (snd (plugin_main (sample_host (sample_proc [train_line @ [CHR 0x0A]] (Some 0)))
          default_options sample_out sample_world)) sample_home = None \<and>
   fs (snd (plugin_main (sample_host (sample_proc [train_line @ [CHR 0x0A]] (Some 0)))
          default_options sample_out sample_world)) sample_metrics_path = Some (File ''{}'') \<and>
   file_calls (trace (snd (plugin_main (sample_host (sample_proc [train_line @ [CHR 0x0A]] (Some 0)))
          (default_options\<lparr>keep_state := True\<rparr>) sample_out sample_world)))
     = [Mkdir sample_home, WriteText sample_metrics_path ''{}''] \<and>
   is_dir (fs (snd (plugin_main (sample_host (sample_proc [train_line @ [CHR 0x0A]] (Some 0)))
          (default_options\<lparr>keep_state := True\<rparr>) sample_out sample_world))) sample_home"
proof -
  let ?H = "sample_host (sample_proc [train_line @ [CHR 0x0A]] (Some 0))"
  let ?w1 = "(log_event (Mkdir sample_home) (handle_signals sample_world))\<lparr>fs := sample_fs1\<rparr>"
  have facts: "fst (plugin_main ?H opts sample_out sample_world) = Returns () \<and>
      (if k then
         file_calls (trace (snd (plugin_main ?H opts sample_out sample_world)))
           = [Mkdir sample_home, WriteText sample_metrics_path ''{}''] \<and>
         is_dir (fs (snd (plugin_main ?H opts sample_out sample_world))) sample_home
       else
         file_calls (trace (snd (plugin_main ?H opts sample_out sample_world)))
           = [Mkdir sample_home, WriteText sample_metrics_path ''{}'', Rmtree sample_home] \<and>
         (\<forall>q. fs (snd (plugin_main ?H opts sample_out sample_world)) q =
            (if below sample_home q then None
             else (sample_fs1(sample_metrics_path \<mapsto> File ''{}'')) q)))"
    if o: "opts = default_options\<lparr>keep_state := k\<rparr>" for opts k
  proof -
    have k: "keep_state opts = k" by (simp add: o)
    have nj: "\<not> json opts" using default_options_valid by (simp add: o)
    have ret: "fst (plugin_main ?H opts sample_out sample_world) = Returns ()"
      by (rule sample_plugin_main_returns [OF k o])
    then have pm: "plugin_main ?H opts sample_out sample_world
        = (Returns (), snd (plugin_main ?H opts sample_out sample_world))"
      by (cases "plugin_main ?H opts sample_out sample_world") simp
    have pe: "prepare_environment ?H (state_dir opts) (cid opts) (handle_signals sample_world)
        = (Returns (sample_env, sample_home), ?w1)"
      using sample_prepare [of "sample_proc [train_line @ [CHR 0x0A]] (Some 0)"] by (simp add: o)
    have mp: "joinpath sample_out (metrics_file opts) = sample_metrics_path"
      using sample_metrics_path_eq by (simp add: o)
    from C10_state_dir_teardown [OF nj pm]
    obtain env home w1 summary w2 where
      pe': "prepare_environment ?H (state_dir opts) (cid opts) (handle_signals sample_world)
              = (Returns (env, home), w1)" and
      run: "run_supernode ?H opts env w1 = (Returns summary, w2)" and
      body: "if keep_state opts then
              file_calls (trace (snd (plugin_main ?H opts sample_out sample_world)))
                = file_calls (trace sample_world) @
                  [Mkdir home, WriteText (joinpath sample_out (metrics_file opts)) (json_dumps ?H summary)] \<and>
              fs (snd (plugin_main ?H opts sample_out sample_world))
                = (fs w1)(joinpath sample_out (metrics_file opts) \<mapsto> File (json_dumps ?H summary)) \<and>
              is_dir (fs (snd (plugin_main ?H opts sample_out sample_world))) home
            else
              file_calls (trace (snd (plugin_main ?H opts sample_out sample_world)))
                = file_calls (trace sample_world) @
                  [Mkdir home, WriteText (joinpath sample_out (metrics_file opts)) (json_dumps ?H summary),
                   Rmtree home] \<and>
              (\<forall>q. fs (snd (plugin_main ?H opts sample_out sample_world)) q =
                 (if below home q then None
                  else ((fs w1)(joinpath sample_out (metrics_file opts) \<mapsto> File (json_dumps ?H summary))) q))"
      by blast
    from pe pe' have eq: "env = sample_env" "home = sample_home" "w1 = ?w1" by simp_all
    have d: "json_dumps ?H summary = ''{}''" by (simp add: sample_host_def)
    have t: "file_calls (trace sample_world) = []" by (simp add: sample_world_def file_calls_def)
    have f: "fs ?w1 = sample_fs1" by simp
    show ?thesis
    proof (cases k)
      case True
      with k have c: "keep_state opts" by simp
      note b = body [unfolded if_P [OF c]]
      from b [THEN conjunct1] b [THEN conjunct2, THEN conjunct2] ret True
      show ?thesis by (simp add: eq mp d t)
    next
      case False
      with k have c: "\<not> keep_state opts" by simp
      note b = body [unfolded if_not_P [OF c]]
      from b [THEN conjunct1] b [THEN conjunct2] ret False
      show ?thesis by (simp add: eq mp d t)
    qed
  qed
  have b1: "below sample_home sample_home" by (simp add: below_def)
  have b2: "\<not> below sample_home sample_metrics_path"
    by (simp add: below_def sample_home_def sample_metrics_path_def)
  from facts [of default_options False] facts [of "default_options\<lparr>keep_state := True\<rparr>" True]
    b1 b2
  show ?thesis by (simp add: default_options_def)
qed

section \<open>The registry in the states the program reaches\<close>

text \<open>
  \<open>_run_supernode\<close> registers a process object of its own making, so a registry of
  distinct handles stays one.
\<close>

lemma run_supernode_registry:
  assumes "distinct (CHILDREN w)" and "\<forall>x \<in> set (CHILDREN w). x < next_handle w"
  shows "distinct (CHILDREN (snd (run_supernode h opts env w))) \<and>
         (\<forall>x \<in> set (CHILDREN (snd (run_supernode h opts env w))).
            x < next_handle (snd (run_supernode h opts env w)))"
proof (cases "popen h (supernode_cmd opts) env")
  case (Inl e)
  with assms show ?thesis by (simp add: run_supernode_def Let_def)
next
  case (Inr p)
  with assms show ?thesis
    by (cases "exit_code p")
       (auto simp: run_supernode_def Let_def proc_wait_def log_event_def register_child_def
          set_status_def bind_def)
qed

end
